theory Spec2Isabelle
  imports Complex_Main "HOL-Library.Word"
begin

unbundle bit_operations_syntax

section \<open>JavaScript values used by the drawing context\<close>

text \<open>
  A JavaScript number is an IEEE double: a finite value, an infinity or NaN. Every finite
  double is a real number, and the operations the drawing context applies to numbers
  (\<^verbatim>\<open>Math.round\<close>, \<^verbatim>\<open><= 0\<close>, \<^verbatim>\<open>===\<close>) are exact on them, so the finite
  values are modelled by \<^typ>\<open>real\<close>. The two zeros are identified: none of these
  operations tells them apart.
\<close>

datatype jsnum = NaN | PosInf | NegInf | Fin real

text \<open>\<^verbatim>\<open>Math.round(x)\<close>: the nearest integer, ties towards plus infinity; NaN and the
  infinities are returned as they are.\<close>

fun Math_round :: "jsnum \<Rightarrow> jsnum" where
  "Math_round (Fin r) = Fin (of_int \<lfloor>r + 1 / 2\<rfloor>)"
| "Math_round NaN = NaN"
| "Math_round PosInf = PosInf"
| "Math_round NegInf = NegInf"

text \<open>\<^verbatim>\<open>x <= 0\<close>: every comparison with NaN is false.\<close>

fun js_le_zero :: "jsnum \<Rightarrow> bool" where
  "js_le_zero (Fin r) = (r \<le> 0)"
| "js_le_zero NaN = False"
| "js_le_zero PosInf = False"
| "js_le_zero NegInf = True"

text \<open>\<^verbatim>\<open>x === y\<close> on numbers: NaN is not equal to itself.\<close>

fun js_strict_eq :: "jsnum \<Rightarrow> jsnum \<Rightarrow> bool" where
  "js_strict_eq NaN y = False"
| "js_strict_eq x NaN = False"
| "js_strict_eq x y = (x = y)"

text \<open>An integer that is at least one, as a property of a JavaScript number.\<close>

fun is_int_ge1 :: "jsnum \<Rightarrow> bool" where
  "is_int_ge1 (Fin r) = (r = of_int \<lfloor>r\<rfloor> \<and> 1 \<le> r)"
| "is_int_ge1 NaN = False"
| "is_int_ge1 PosInf = False"
| "is_int_ge1 NegInf = False"

text \<open>The numbers that are neither NaN nor plus infinity.\<close>

fun roundable :: "jsnum \<Rightarrow> bool" where
  "roundable NaN = False"
| "roundable PosInf = False"
| "roundable NegInf = True"
| "roundable (Fin r) = True"

type_synonym addr = nat
type_synonym handle = nat

text \<open>
  The values a field of a blend object holds: \<^verbatim>\<open>undefined\<close>, \<^verbatim>\<open>null\<close>, a boolean,
  a number, or a reference to an array on the heap.
\<close>

datatype jsval = Undefined | Null | Bool bool | Num jsnum | ArrRef addr

text \<open>
  A blend object: \<^verbatim>\<open>state.blend\<close> of a context, or an entry of the renderer's
  \<^verbatim>\<open>blendModes\<close> table. The empty object \<^verbatim>\<open>{}\<close> has every field undefined.
  \<^verbatim>\<open>color\<close> is either undefined or a reference to an array.
\<close>

record blend_obj =
  color :: "addr option"
  enable :: jsval
  equation :: jsval
  func :: jsval

definition empty_blend :: blend_obj where
  "empty_blend = \<lparr>color = None, enable = Undefined, equation = Undefined, func = Undefined\<rparr>"

section \<open>The renderer, as the drawing context uses it\<close>

text \<open>
  The calls a drawing context makes on its renderer, in the order it makes them.
  A created resource is recorded with the handle the renderer returned.
\<close>

datatype renderer_call =
    DeleteTexture handle
  | DeleteFramebuffer handle
  | CreateTexture jsnum jsnum handle
  | CreateFramebuffer "handle option" handle
  | OnResize

text \<open>
  The part of the renderer that a drawing context reads and never writes: its size, its
  table of blend modes (references to blend objects) and the three buffer bits of its
  WebGL context.
\<close>

record renderer =
  r_width :: jsnum
  r_height :: jsnum
  blendModes :: "addr list"
  COLOR_BUFFER_BIT :: "32 word"
  DEPTH_BUFFER_BIT :: "32 word"
  STENCIL_BUFFER_BIT :: "32 word"

text \<open>
  The mutable world: the heap of arrays, the heap of blend objects, the next free address,
  the next resource handle of the renderer, and the calls made on the renderer so far.
\<close>

record world =
  arrs :: "addr \<Rightarrow> jsnum list"
  blends :: "addr \<Rightarrow> blend_obj"
  next_addr :: addr
  next_handle :: handle
  calls :: "renderer_call list"

text \<open>An array literal or \<^verbatim>\<open>slice()\<close>: a new array at the next free address.\<close>

definition alloc_arr :: "jsnum list \<Rightarrow> world \<Rightarrow> addr \<times> world" where
  "alloc_arr xs w =
     (next_addr w, w\<lparr>arrs := (arrs w)(next_addr w := xs), next_addr := Suc (next_addr w)\<rparr>)"

text \<open>An object literal for a blend object: a new object at the next free address.\<close>

definition alloc_blend :: "blend_obj \<Rightarrow> world \<Rightarrow> addr \<times> world" where
  "alloc_blend b w =
     (next_addr w, w\<lparr>blends := (blends w)(next_addr w := b), next_addr := Suc (next_addr w)\<rparr>)"

text \<open>
  The renderer's \<^verbatim>\<open>deleteTexture\<close>, \<^verbatim>\<open>deleteFramebuffer\<close>, \<^verbatim>\<open>createTextureFromSource\<close>
  and \<^verbatim>\<open>createFramebuffer\<close> are not among the source files. The spec says that deleting
  null is a no-op, and that creation always succeeds and returns a resource. Here every
  created resource gets a handle never given out before, and every call with an effect is
  recorded.
\<close>

text \<open>Modelled from the spec: \<^verbatim>\<open>renderer.deleteTexture\<close> is missing; deleting null is a
  no-op, any other deletion is recorded.\<close>

definition deleteTexture :: "handle option \<Rightarrow> world \<Rightarrow> world" where
  "deleteTexture t w =
     (case t of None \<Rightarrow> w | Some h \<Rightarrow> w\<lparr>calls := calls w @ [DeleteTexture h]\<rparr>)"

text \<open>Modelled from the spec: \<^verbatim>\<open>renderer.deleteFramebuffer\<close> is missing; deleting null
  is a no-op, any other deletion is recorded.\<close>

definition deleteFramebuffer :: "handle option \<Rightarrow> world \<Rightarrow> world" where
  "deleteFramebuffer f w =
     (case f of None \<Rightarrow> w | Some h \<Rightarrow> w\<lparr>calls := calls w @ [DeleteFramebuffer h]\<rparr>)"

text \<open>Modelled from the spec: \<^verbatim>\<open>renderer.createTextureFromSource\<close> is missing; it
  always succeeds and returns a new texture of the given size.\<close>

definition createTextureFromSource :: "jsnum \<Rightarrow> jsnum \<Rightarrow> world \<Rightarrow> handle \<times> world" where
  "createTextureFromSource width height w =
     (next_handle w,
      w\<lparr>next_handle := Suc (next_handle w),
        calls := calls w @ [CreateTexture width height (next_handle w)]\<rparr>)"

text \<open>Modelled from the spec: \<^verbatim>\<open>renderer.createFramebuffer\<close> is missing; it always
  succeeds and returns a new framebuffer, on the given texture or, for null, on the
  canvas.\<close>

definition createFramebuffer :: "handle option \<Rightarrow> world \<Rightarrow> handle \<times> world" where
  "createFramebuffer t w =
     (next_handle w,
      w\<lparr>next_handle := Suc (next_handle w),
        calls := calls w @ [CreateFramebuffer t (next_handle w)]\<rparr>)"

section \<open>DrawingContext\<close>

text \<open>
  The fields of a DrawingContext. The objects \<^verbatim>\<open>state\<close>, \<^verbatim>\<open>state.bindings\<close> and
  \<^verbatim>\<open>state.scissor\<close> are flattened into the record (\<open>st_\<close> fields): no method shares
  them between contexts. \<^verbatim>\<open>state.blend\<close> and the three arrays are references into the
  heap. \<^verbatim>\<open>width\<close> and \<^verbatim>\<open>height\<close> are undefined until the first resize.
\<close>

record drawing_context =
  ctx_renderer :: renderer
  camera :: "addr option"
  st_framebuffer :: "handle option"
  st_blend :: addr
  st_colorClearValue :: addr
  st_scissor_box :: addr
  st_scissor_enable :: bool
  st_viewport :: addr
  blendMode :: int
  autoClear :: "32 word"
  useCanvas :: bool
  framebuffer :: "handle option"
  texture :: "handle option"
  inUse :: bool
  width :: "jsnum option"
  height :: "jsnum option"

datatype error = TypeError

text \<open>
  A call that throws: the error, with the context and the world as they are at the throw
  (what was written before the throw stays written).
\<close>

type_synonym failure = "error \<times> drawing_context \<times> world"

text \<open>\<^verbatim>\<open>resize(width, height)\<close>, lines 195 to 235.\<close>

definition resize ::
  "jsnum \<Rightarrow> jsnum \<Rightarrow> drawing_context \<Rightarrow> world \<Rightarrow> drawing_context \<times> world" where
  "resize width0 height0 this w0 =
     (let width1 = Math_round width0;
          height1 = Math_round height0;
          width2 = (if js_le_zero width1 then Fin 1 else width1);
          height2 = (if js_le_zero height1 then Fin 1 else height1);
          (this1, w1) =
            (if \<not> useCanvas this then
               let wa = deleteTexture (texture this) w0;
                   wb = deleteFramebuffer (st_framebuffer this) wa;
                   (t, wc) = createTextureFromSource width2 height2 wb;
                   (f, wd) = createFramebuffer (Some t) wc
               in (this\<lparr>texture := Some t, framebuffer := Some f\<rparr>, wd)
             else if framebuffer this = None then
               let (f, wa) = createFramebuffer None w0
               in (this\<lparr>framebuffer := Some f\<rparr>, wa)
             else (this, w0));
          this2 = this1\<lparr>st_framebuffer := framebuffer this1,
                        width := Some width2, height := Some height2\<rparr>;
          (box, w2) = alloc_arr [Fin 0, Fin 0, width2, height2] w1;
          (vp, w3) = alloc_arr [Fin 0, Fin 0, width2, height2] w2
      in (this2\<lparr>st_scissor_box := box, st_viewport := vp\<rparr>, w3))"

text \<open>\<^verbatim>\<open>setAutoClear(color, depth, stencil)\<close>, lines 314 to 322.\<close>

definition setAutoClear :: "bool \<Rightarrow> bool \<Rightarrow> bool \<Rightarrow> drawing_context \<Rightarrow> drawing_context" where
  "setAutoClear color_bit depth_bit stencil_bit this =
     (let gl = ctx_renderer this;
          autoClear0 = 0;
          autoClear1 = (if color_bit then autoClear0 OR COLOR_BUFFER_BIT gl else autoClear0);
          autoClear2 = (if depth_bit then autoClear1 OR DEPTH_BUFFER_BIT gl else autoClear1);
          autoClear3 = (if stencil_bit then autoClear2 OR STENCIL_BUFFER_BIT gl else autoClear2)
      in this\<lparr>autoClear := autoClear3\<rparr>)"

text \<open>
  \<^verbatim>\<open>renderer.blendModes[blendMode]\<close>: the entry of the array at an index, undefined
  outside the array.
\<close>

definition table_entry :: "addr list \<Rightarrow> int \<Rightarrow> addr option" where
  "table_entry tbl i = (if 0 \<le> i \<and> nat i < length tbl then Some (tbl ! nat i) else None)"

text \<open>An assignment to one field of a blend object on the heap.\<close>

definition upd_blend :: "addr \<Rightarrow> (blend_obj \<Rightarrow> blend_obj) \<Rightarrow> world \<Rightarrow> world" where
  "upd_blend a f w = w\<lparr>blends := (blends w)(a := f (blends w a))\<rparr>"

text \<open>
  \<^verbatim>\<open>setBlendMode(blendMode, blendColor)\<close>, lines 332 to 353. The blend color is an
  array or is left out. Reading \<^verbatim>\<open>enable\<close> of an undefined table entry throws a
  TypeError, before anything is written.
\<close>

definition setBlendMode ::
  "int \<Rightarrow> addr option \<Rightarrow> drawing_context \<Rightarrow> world \<Rightarrow> failure + drawing_context \<times> world" where
  "setBlendMode blendMode' blendColor this w =
     (if blendMode' = blendMode this then Inr (this, w)
      else
        let blend = st_blend this in
        case table_entry (blendModes (ctx_renderer this)) blendMode' of
          None \<Rightarrow> Inl (TypeError, this, w)
        | Some blendModeData \<Rightarrow>
            let w1 = upd_blend blend (\<lambda>b. b\<lparr>enable := enable (blends w blendModeData)\<rparr>) w;
                w2 = upd_blend blend (\<lambda>b. b\<lparr>equation := equation (blends w1 blendModeData)\<rparr>) w1;
                w3 = upd_blend blend (\<lambda>b. b\<lparr>func := func (blends w2 blendModeData)\<rparr>) w2;
                w4 = (case blendColor of
                        Some c \<Rightarrow> upd_blend blend (\<lambda>b. b\<lparr>color := Some c\<rparr>) w3
                      | None \<Rightarrow> upd_blend blend (\<lambda>b. b\<lparr>color := None\<rparr>) w3)
            in Inr (this\<lparr>blendMode := blendMode'\<rparr>, w4))"

text \<open>\<^verbatim>\<open>setCamera(camera)\<close>, lines 362 to 365.\<close>

definition setCamera :: "addr option \<Rightarrow> drawing_context \<Rightarrow> drawing_context" where
  "setCamera camera' this = this\<lparr>camera := camera'\<rparr>"

text \<open>\<^verbatim>\<open>x === xs[i]\<close> for a number \<open>x\<close>: an element outside the array is undefined,
  which no number equals.\<close>

definition eq_elem :: "jsnum \<Rightarrow> jsnum list \<Rightarrow> nat \<Rightarrow> bool" where
  "eq_elem x xs i = (i < length xs \<and> js_strict_eq x (xs ! i))"

text \<open>\<^verbatim>\<open>setClearColor(r, g, b, a)\<close>, lines 378 to 389.\<close>

definition setClearColor ::
  "jsnum \<Rightarrow> jsnum \<Rightarrow> jsnum \<Rightarrow> jsnum \<Rightarrow> drawing_context \<Rightarrow> world \<Rightarrow> drawing_context \<times> world" where
  "setClearColor r g b a this w =
     (let colorClearValue = arrs w (st_colorClearValue this) in
      if eq_elem r colorClearValue 0 \<and> eq_elem g colorClearValue 1 \<and>
         eq_elem b colorClearValue 2 \<and> eq_elem a colorClearValue 3
      then (this, w)
      else let (n, w1) = alloc_arr [r, g, b, a] w
           in (this\<lparr>st_colorClearValue := n\<rparr>, w1))"

text \<open>\<^verbatim>\<open>setScissorBox\<close> and \<^verbatim>\<open>setScissorEnable\<close>, lines 401 to 416.\<close>

definition setScissorBox ::
  "jsnum \<Rightarrow> jsnum \<Rightarrow> jsnum \<Rightarrow> jsnum \<Rightarrow> drawing_context \<Rightarrow> world \<Rightarrow> drawing_context \<times> world" where
  "setScissorBox x y width' height' this w =
     (let (n, w1) = alloc_arr [x, y, width', height'] w
      in (this\<lparr>st_scissor_box := n\<rparr>, w1))"

definition setScissorEnable :: "bool \<Rightarrow> drawing_context \<Rightarrow> drawing_context" where
  "setScissorEnable enable' this = this\<lparr>st_scissor_enable := enable'\<rparr>"

text \<open>A field read as a number: undefined reads as NaN.\<close>

definition to_number :: "jsnum option \<Rightarrow> jsnum" where
  "to_number x = (case x of None \<Rightarrow> NaN | Some n \<Rightarrow> n)"

text \<open>\<^verbatim>\<open>blend.color && blend.color.slice()\<close>: undefined stays undefined, an array is
  copied into a new array.\<close>

definition slice_color :: "addr option \<Rightarrow> world \<Rightarrow> addr option \<times> world" where
  "slice_color c w =
     (case c of
        None \<Rightarrow> (None, w)
      | Some a \<Rightarrow> (let (a', w1) = alloc_arr (arrs w a) w in (Some a', w1)))"

text \<open>\<^verbatim>\<open>copy(source)\<close>, lines 245 to 278.\<close>

definition copy :: "drawing_context \<Rightarrow> drawing_context \<Rightarrow> world \<Rightarrow> drawing_context \<times> world" where
  "copy source this w =
     (let blend = st_blend source;
          this1 = this\<lparr>autoClear := autoClear source, useCanvas := useCanvas source,
                       framebuffer := framebuffer source, texture := texture source,
                       camera := camera source, blendMode := blendMode source\<rparr>;
          (col, w1) = slice_color (color (blends w blend)) w;
          (nb, w2) = alloc_blend
                       \<lparr>color = col, enable = enable (blends w1 blend),
                        equation = equation (blends w1 blend), func = func (blends w1 blend)\<rparr> w1;
          (ccv, w3) = alloc_arr (arrs w2 (st_colorClearValue source)) w2;
          (box, w4) = alloc_arr (arrs w3 (st_scissor_box source)) w3;
          (vp, w5) = alloc_arr (arrs w4 (st_viewport source)) w4;
          this2 = this1\<lparr>st_framebuffer := st_framebuffer source, st_blend := nb,
                        st_colorClearValue := ccv, st_scissor_box := box,
                        st_scissor_enable := st_scissor_enable source, st_viewport := vp\<rparr>
      in resize (to_number (width source)) (to_number (height source)) this2 w5)"

text \<open>The options of the constructor. A field that is left out is \<open>None\<close>, or
  \<open>False\<close> where the constructor only tests it for truth.\<close>

datatype autoClear_option = AutoClearUndefined | AutoClearBool bool | AutoClearArray "bool list"

record options =
  opt_autoClear :: autoClear_option
  opt_autoResize :: bool
  opt_blendMode :: "int option"
  opt_camera :: "addr option"
  opt_clearColor :: "addr option"
  opt_useCanvas :: bool
  opt_copyFrom :: "drawing_context option"

text \<open>An argument taken from an array by \<^verbatim>\<open>apply\<close>: a missing one is undefined,
  which tests as false.\<close>

definition arg_at :: "bool list \<Rightarrow> nat \<Rightarrow> bool" where
  "arg_at xs i = (i < length xs \<and> xs ! i)"

text \<open>
  The constructor up to line 171, before it copies or resizes. The record is built when
  \<^verbatim>\<open>state\<close> is; the fields that the constructor assigns later hold, until then, the
  value it first assigns them, which \<^verbatim>\<open>setBlendMode\<close> and \<^verbatim>\<open>setAutoClear\<close> do not
  read.
\<close>

definition DrawingContext_init ::
  "renderer \<Rightarrow> options \<Rightarrow> world \<Rightarrow> failure + drawing_context \<times> world" where
  "DrawingContext_init rndr opts w =
     (let (blend, w1) = alloc_blend empty_blend w;
          (ccv, w2) = (case opt_clearColor opts of
                         Some a \<Rightarrow> (a, w1)
                       | None \<Rightarrow> alloc_arr [Fin 0, Fin 0, Fin 0, Fin 0] w1);
          (box, w3) = alloc_arr [Fin 0, Fin 0, Fin 0, Fin 0] w2;
          (vp, w4) = alloc_arr [Fin 0, Fin 0, Fin 0, Fin 0] w3;
          this0 = setCamera (opt_camera opts)
                    \<lparr>ctx_renderer = rndr, camera = None, st_framebuffer = None,
                     st_blend = blend, st_colorClearValue = ccv, st_scissor_box = box,
                     st_scissor_enable = True, st_viewport = vp, blendMode = - 1,
                     autoClear = 0, useCanvas = False, framebuffer = None, texture = None,
                     inUse = False, width = None, height = None\<rparr>
      in case setBlendMode (case opt_blendMode opts of None \<Rightarrow> 0 | Some b \<Rightarrow> b) None this0 w4 of
           Inl e \<Rightarrow> Inl e
         | Inr (this1, w5) \<Rightarrow>
             let this2 = this1\<lparr>autoClear := 0\<rparr>;
                 this3 = (case opt_autoClear opts of
                            AutoClearUndefined \<Rightarrow> setAutoClear True True True this2
                          | AutoClearBool True \<Rightarrow> setAutoClear True True True this2
                          | AutoClearBool False \<Rightarrow> this2
                          | AutoClearArray xs \<Rightarrow>
                              setAutoClear (arg_at xs 0) (arg_at xs 1) (arg_at xs 2) this2);
                 this4 = this3\<lparr>useCanvas := opt_useCanvas opts, framebuffer := None,
                               texture := None, inUse := False\<rparr>;
                 w6 = (if opt_autoResize opts then w5\<lparr>calls := calls w5 @ [OnResize]\<rparr> else w5)
             in Inr (this4, w6))"

text \<open>The constructor, lines 41 to 181: it ends with \<^verbatim>\<open>copy\<close> or with \<^verbatim>\<open>resize\<close>.\<close>

definition DrawingContext_new ::
  "renderer \<Rightarrow> options \<Rightarrow> world \<Rightarrow> failure + drawing_context \<times> world" where
  "DrawingContext_new rndr opts w =
     (case DrawingContext_init rndr opts w of
        Inl e \<Rightarrow> Inl e
      | Inr (this, w1) \<Rightarrow>
          (case opt_copyFrom opts of
             Some source \<Rightarrow> Inr (copy source this w1)
           | None \<Rightarrow> Inr (resize (r_width rndr) (r_height rndr) this w1)))"

text \<open>The options object \<^verbatim>\<open>{ copyFrom: source }\<close>.\<close>

definition copyFrom_options :: "drawing_context \<Rightarrow> options" where
  "copyFrom_options source =
     \<lparr>opt_autoClear = AutoClearUndefined, opt_autoResize = False, opt_blendMode = None,
      opt_camera = None, opt_clearColor = None, opt_useCanvas = False,
      opt_copyFrom = Some source\<rparr>"

text \<open>\<^verbatim>\<open>getClone(preserveAutoClear)\<close>, lines 293 to 303.\<close>

definition getClone ::
  "bool \<Rightarrow> drawing_context \<Rightarrow> world \<Rightarrow> failure + drawing_context \<times> world" where
  "getClone preserveAutoClear this w =
     (case DrawingContext_new (ctx_renderer this) (copyFrom_options this) w of
        Inl e \<Rightarrow> Inl e
      | Inr (context, w1) \<Rightarrow>
          Inr (if \<not> preserveAutoClear then setAutoClear False False False context else context,
               w1))"

section \<open>Consistency of the blend mode with the blend state\<close>

text \<open>
  The fields \<^verbatim>\<open>enable\<close>, \<^verbatim>\<open>equation\<close> and \<^verbatim>\<open>func\<close> of \<^verbatim>\<open>state.blend\<close> are those
  of the table's entry at the index \<^verbatim>\<open>blendMode\<close>. Where the table has no entry at that
  index (the \<open>- 1\<close> a context starts from), the three fields are undefined, as the fields
  of a missing entry are.
\<close>

definition blend_consistent :: "addr list \<Rightarrow> drawing_context \<Rightarrow> world \<Rightarrow> bool" where
  "blend_consistent tbl this w =
     (case table_entry tbl (blendMode this) of
        Some a \<Rightarrow>
          enable (blends w (st_blend this)) = enable (blends w a) \<and>
          equation (blends w (st_blend this)) = equation (blends w a) \<and>
          func (blends w (st_blend this)) = func (blends w a)
      | None \<Rightarrow>
          enable (blends w (st_blend this)) = Undefined \<and>
          equation (blends w (st_blend this)) = Undefined \<and>
          func (blends w (st_blend this)) = Undefined)"

text \<open>
  The states of one context of a renderer, with the world it lives in, after any sequence
  of its operations: the constructor up to its last step, then \<^verbatim>\<open>resize\<close>, \<^verbatim>\<open>copy\<close>,
  \<^verbatim>\<open>setBlendMode\<close> (returning or throwing) and the other setters, in any order. The
  constructor itself is the first rule followed by \<^verbatim>\<open>copy\<close> or \<^verbatim>\<open>resize\<close>. A source
  that is copied is any context that is consistent, in the world as it is then, with the
  same table.
\<close>

inductive reachable :: "renderer \<Rightarrow> drawing_context \<Rightarrow> world \<Rightarrow> bool" for rndr where
  constructed:
    "DrawingContext_init rndr opts w = Inr (c, w') \<Longrightarrow> reachable rndr c w'"
| resized:
    "reachable rndr c w \<Longrightarrow> resize wd ht c w = (c', w') \<Longrightarrow> reachable rndr c' w'"
| copied:
    "reachable rndr c w \<Longrightarrow> blend_consistent (blendModes rndr) source w \<Longrightarrow>
     copy source c w = (c', w') \<Longrightarrow> reachable rndr c' w'"
| blend_mode_set:
    "reachable rndr c w \<Longrightarrow> setBlendMode b col c w = Inr (c', w') \<Longrightarrow> reachable rndr c' w'"
| blend_mode_thrown:
    "reachable rndr c w \<Longrightarrow> setBlendMode b col c w = Inl (e, c', w') \<Longrightarrow>
     reachable rndr c' w'"
| auto_clear_set:
    "reachable rndr c w \<Longrightarrow> reachable rndr (setAutoClear x y z c) w"
| camera_set:
    "reachable rndr c w \<Longrightarrow> reachable rndr (setCamera cam c) w"
| clear_color_set:
    "reachable rndr c w \<Longrightarrow> setClearColor r g b a c w = (c', w') \<Longrightarrow> reachable rndr c' w'"
| scissor_box_set:
    "reachable rndr c w \<Longrightarrow> setScissorBox x y wd ht c w = (c', w') \<Longrightarrow>
     reachable rndr c' w'"
| scissor_enable_set:
    "reachable rndr c w \<Longrightarrow> reachable rndr (setScissorEnable en c) w"

section \<open>WebGLGlobalParametersFactory\<close>

text \<open>
  The descriptor that \<^verbatim>\<open>getDefault\<close> returns. The objects \<^verbatim>\<open>bindings\<close>,
  \<^verbatim>\<open>scissor\<close> and \<^verbatim>\<open>texturing\<close> and the array \<^verbatim>\<open>colorWritemask\<close> are flattened into
  the record; \<^verbatim>\<open>blend\<close> is a reference to a blend object, or undefined, and the number
  arrays are references into the heap. The stencil descriptor is whatever
  \<^verbatim>\<open>WebGLStencilParametersFactory.create\<close> returns.
\<close>

record 's global_parameters =
  bind_activeTexture :: jsnum
  bind_arrayBuffer :: "handle option"
  bind_elementArrayBuffer :: "handle option"
  bind_framebuffer :: "handle option"
  bind_program :: "handle option"
  gp_blend :: "addr option"
  gp_colorClearValue :: addr
  gp_colorWritemask :: "bool list"
  gp_cullFace :: bool
  gp_depthTest :: bool
  gp_scissor_enable :: bool
  gp_scissor_box :: addr
  gp_stencil :: 's
  gp_texturing_flipY :: bool
  gp_texturing_premultiplyAlpha :: bool
  gp_viewport :: addr

text \<open>
  Modelled from the spec: \<^verbatim>\<open>DeepCopy\<close> (utils/object/DeepCopy) is not among the source
  files. The spec says that the entry is deep-copied, so that the descriptor cannot be
  changed through the table or the table through the descriptor: a value that is an array
  is copied into a new array, any other value is returned as it is, and a blend object is
  copied field by field into a new object. The copy of undefined is undefined.
\<close>

definition DeepCopy_value :: "jsval \<Rightarrow> world \<Rightarrow> jsval \<times> world" where
  "DeepCopy_value v w =
     (case v of
        ArrRef a \<Rightarrow> (let (a', w1) = alloc_arr (arrs w a) w in (ArrRef a', w1))
      | _ \<Rightarrow> (v, w))"

text \<open>Modelled from the spec: \<^verbatim>\<open>DeepCopy\<close> is missing; on a blend object (or
  undefined), it copies the object and, with \<open>DeepCopy_value\<close>, each of its fields.\<close>

definition DeepCopy :: "addr option \<Rightarrow> world \<Rightarrow> addr option \<times> world" where
  "DeepCopy inObject w =
     (case inObject of
        None \<Rightarrow> (None, w)
      | Some a \<Rightarrow>
          let (col, w1) = slice_color (color (blends w a)) w;
              (en, w2) = DeepCopy_value (enable (blends w1 a)) w1;
              (eq, w3) = DeepCopy_value (equation (blends w2 a)) w2;
              (fn, w4) = DeepCopy_value (func (blends w3 a)) w3;
              (outObject, w5) =
                alloc_blend \<lparr>color = col, enable = en, equation = eq, func = fn\<rparr> w4
          in (Some outObject, w5))"

text \<open>
  \<^verbatim>\<open>getDefault(renderer)\<close>, lines 24 to 52. Two things it uses are not among the source
  files and are parameters here: the index \<^verbatim>\<open>CONST.BlendModes.NORMAL\<close> and the stencil
  descriptor made by \<^verbatim>\<open>WebGLStencilParametersFactory.create(renderer)\<close>.
\<close>

definition getDefault ::
  "int \<Rightarrow> 's \<Rightarrow> renderer \<Rightarrow> world \<Rightarrow> 's global_parameters \<times> world" where
  "getDefault NORMAL stencil rndr w =
     (let (blend, w1) = DeepCopy (table_entry (blendModes rndr) NORMAL) w;
          (ccv, w2) = alloc_arr [Fin 0, Fin 0, Fin 0, Fin 1] w1;
          (box, w3) = alloc_arr [Fin 0, Fin 0, Fin 0, Fin 0] w2;
          (vp, w4) = alloc_arr [Fin 0, Fin 0, Fin 0, Fin 0] w3
      in (\<lparr>bind_activeTexture = Fin 0, bind_arrayBuffer = None,
           bind_elementArrayBuffer = None, bind_framebuffer = None, bind_program = None,
           gp_blend = blend, gp_colorClearValue = ccv,
           gp_colorWritemask = [True, True, True, True],
           gp_cullFace = False, gp_depthTest = False,
           gp_scissor_enable = False, gp_scissor_box = box,
           gp_stencil = stencil,
           gp_texturing_flipY = False, gp_texturing_premultiplyAlpha = False,
           gp_viewport = vp\<rparr>, w4))"

text \<open>
  What can be read through a value and through a blend object: a primitive value itself,
  the contents of an array. Two blend objects with the same reading hold the same data,
  whether or not they share storage.
\<close>

definition read_value :: "world \<Rightarrow> jsval \<Rightarrow> jsval + jsnum list" where
  "read_value w v = (case v of ArrRef a \<Rightarrow> Inr (arrs w a) | _ \<Rightarrow> Inl v)"

definition read_blend ::
  "world \<Rightarrow> addr \<Rightarrow> jsnum list option \<times> (jsval + jsnum list) \<times> (jsval + jsnum list) \<times>
     (jsval + jsnum list)" where
  "read_blend w a =
     (map_option (arrs w) (color (blends w a)), read_value w (enable (blends w a)),
      read_value w (equation (blends w a)), read_value w (func (blends w a)))"

text \<open>The arrays that a value and a blend object refer to.\<close>

definition value_arrays :: "jsval \<Rightarrow> addr set" where
  "value_arrays v = (case v of ArrRef a \<Rightarrow> {a} | _ \<Rightarrow> {})"

definition blend_arrays :: "blend_obj \<Rightarrow> addr set" where
  "blend_arrays b =
     set_option (color b) \<union> value_arrays (enable b) \<union> value_arrays (equation b) \<union>
     value_arrays (func b)"

text \<open>
  A world \<open>w'\<close> that comes from \<open>w\<close> by writing through the blend object at \<open>a\<close> only:
  any fields of that object may have changed, and any elements of the arrays it referred
  to; everything else on the heap is as it was.
\<close>

definition written_through :: "addr \<Rightarrow> world \<Rightarrow> world \<Rightarrow> bool" where
  "written_through a w w' =
     ((\<forall>x. x \<noteq> a \<longrightarrow> blends w' x = blends w x) \<and>
      (\<forall>x. x \<notin> blend_arrays (blends w a) \<longrightarrow> arrs w' x = arrs w x))"

text \<open>
  A world \<open>w'\<close> that comes from \<open>w\<close> by allocating arrays only: the blend objects, the
  renderer's handles and calls and the arrays that \<open>w\<close> had are as they were.
\<close>

definition extends :: "world \<Rightarrow> world \<Rightarrow> bool" where
  "extends w w' =
     (next_addr w \<le> next_addr w' \<and> blends w' = blends w \<and> calls w' = calls w \<and>
      next_handle w' = next_handle w \<and> (\<forall>a. a < next_addr w \<longrightarrow> arrs w' a = arrs w a))"

text \<open>Any number of calls of \<^verbatim>\<open>resize\<close> on one context, one after the other, each with
  its own width and height.\<close>

fun resize_all ::
  "(jsnum \<times> jsnum) list \<Rightarrow> drawing_context \<Rightarrow> world \<Rightarrow> drawing_context \<times> world" where
  "resize_all [] this w = (this, w)"
| "resize_all ((wd, ht) # rest) this w =
     (case resize wd ht this w of (this', w') \<Rightarrow> resize_all rest this' w')"

section \<open>A renderer and a context to evaluate on\<close>

text \<open>
  A renderer of 800 by 600 with two blend modes. The world holds their entries at
  addresses 0 and 1 and their \<^verbatim>\<open>func\<close> arrays at addresses 2 and 3.
\<close>

definition example_world :: world where
  "example_world =
     \<lparr>arrs = (\<lambda>_. [])(2 := [Fin 1, Fin 771], 3 := [Fin 1, Fin 1]),
      blends = (\<lambda>_. empty_blend)
        (0 := \<lparr>color = None, enable = Bool True, equation = Num (Fin 32774), func = ArrRef 2\<rparr>,
         1 := \<lparr>color = None, enable = Bool True, equation = Num (Fin 32774), func = ArrRef 3\<rparr>),
      next_addr = 4, next_handle = 0, calls = []\<rparr>"

definition example_renderer :: renderer where
  "example_renderer =
     \<lparr>r_width = Fin 800, r_height = Fin 600, blendModes = [0, 1],
      COLOR_BUFFER_BIT = 16384, DEPTH_BUFFER_BIT = 256, STENCIL_BUFFER_BIT = 1024\<rparr>"

text \<open>The options object \<^verbatim>\<open>{}\<close>.\<close>

definition default_options :: options where
  "default_options =
     \<lparr>opt_autoClear = AutoClearUndefined, opt_autoResize = False, opt_blendMode = None,
      opt_camera = None, opt_clearColor = None, opt_useCanvas = False,
      opt_copyFrom = None\<rparr>"

text \<open>The context that \<^verbatim>\<open>new DrawingContext(renderer, {})\<close> returns in that world, and
  the world it leaves (lemma \<open>example_constructed\<close> below).\<close>

definition example_context :: drawing_context where
  "example_context =
     \<lparr>ctx_renderer = example_renderer, camera = None, st_framebuffer = Some 1,
      st_blend = 4, st_colorClearValue = 5, st_scissor_box = 8,
      st_scissor_enable = True, st_viewport = 9, blendMode = 0,
      autoClear = 17664, useCanvas = False, framebuffer = Some 1, texture = Some 0,
      inUse = False, width = Some (Fin 800), height = Some (Fin 600)\<rparr>"

definition example_world1 :: world where
  "example_world1 =
     \<lparr>arrs = (\<lambda>_. [])(2 := [Fin 1, Fin 771], 3 := [Fin 1, Fin 1],
         5 := [Fin 0, Fin 0, Fin 0, Fin 0], 6 := [Fin 0, Fin 0, Fin 0, Fin 0],
         7 := [Fin 0, Fin 0, Fin 0, Fin 0], 8 := [Fin 0, Fin 0, Fin 800, Fin 600],
         9 := [Fin 0, Fin 0, Fin 800, Fin 600]),
      blends = (\<lambda>_. empty_blend)
        (0 := \<lparr>color = None, enable = Bool True, equation = Num (Fin 32774), func = ArrRef 2\<rparr>,
         1 := \<lparr>color = None, enable = Bool True, equation = Num (Fin 32774), func = ArrRef 3\<rparr>,
         4 := \<lparr>color = None, enable = Bool True, equation = Num (Fin 32774), func = ArrRef 2\<rparr>),
      next_addr = 10, next_handle = 2,
      calls = [CreateTexture (Fin 800) (Fin 600) 0, CreateFramebuffer (Some 0) 1]\<rparr>"

text \<open>
  The options \<^verbatim>\<open>{ useCanvas: true, copyFrom: context }\<close> for the example context, and
  the context and the world that the constructor returns for them in \<open>example_world1\<close>
  (lemma \<open>example_copy_constructed\<close> below). \<^verbatim>\<open>getClone(true)\<close> on the example context
  returns the same (lemma \<open>example_clone\<close>).
\<close>

definition example_copy_options :: options where
  "example_copy_options = default_options\<lparr>opt_useCanvas := True, opt_copyFrom := Some example_context\<rparr>"

definition example_copied_context :: drawing_context where
  "example_copied_context =
     \<lparr>ctx_renderer = example_renderer, camera = None, st_framebuffer = Some 3,
      st_blend = 14, st_colorClearValue = 15, st_scissor_box = 18,
      st_scissor_enable = True, st_viewport = 19, blendMode = 0,
      autoClear = 17664, useCanvas = False, framebuffer = Some 3, texture = Some 2,
      inUse = False, width = Some (Fin 800), height = Some (Fin 600)\<rparr>"

definition example_world2 :: world where
  "example_world2 =
     example_world1
       \<lparr>arrs := (arrs example_world1)
          (11 := [Fin 0, Fin 0, Fin 0, Fin 0], 12 := [Fin 0, Fin 0, Fin 0, Fin 0],
           13 := [Fin 0, Fin 0, Fin 0, Fin 0], 15 := [Fin 0, Fin 0, Fin 0, Fin 0],
           16 := [Fin 0, Fin 0, Fin 800, Fin 600], 17 := [Fin 0, Fin 0, Fin 800, Fin 600],
           18 := [Fin 0, Fin 0, Fin 800, Fin 600], 19 := [Fin 0, Fin 0, Fin 800, Fin 600]),
        blends := (blends example_world1)
          (10 := \<lparr>color = None, enable = Bool True, equation = Num (Fin 32774), func = ArrRef 2\<rparr>,
           14 := \<lparr>color = None, enable = Bool True, equation = Num (Fin 32774), func = ArrRef 2\<rparr>),
        next_addr := 20, next_handle := 4,
        calls := calls example_world1 @
          [DeleteTexture 0, DeleteFramebuffer 1,
           CreateTexture (Fin 800) (Fin 600) 2, CreateFramebuffer (Some 2) 3]\<rparr>"

text \<open>The context that \<^verbatim>\<open>new DrawingContext(renderer, { useCanvas: true })\<close> returns in
  \<open>example_world\<close>, and the world it leaves (lemma \<open>example_canvas_constructed\<close>).\<close>

definition example_canvas_context :: drawing_context where
  "example_canvas_context =
     \<lparr>ctx_renderer = example_renderer, camera = None, st_framebuffer = Some 0,
      st_blend = 4, st_colorClearValue = 5, st_scissor_box = 8,
      st_scissor_enable = True, st_viewport = 9, blendMode = 0,
      autoClear = 17664, useCanvas = True, framebuffer = Some 0, texture = None,
      inUse = False, width = Some (Fin 800), height = Some (Fin 600)\<rparr>"

definition example_canvas_world :: world where
  "example_canvas_world =
     example_world1\<lparr>next_handle := 1, calls := [CreateFramebuffer None 0]\<rparr>"

text \<open>The descriptor that \<^verbatim>\<open>getDefault(renderer)\<close> returns in the example world, with
  0 for \<^verbatim>\<open>CONST.BlendModes.NORMAL\<close> and a stencil descriptor that holds nothing, and the
  world it leaves.\<close>

definition example_default :: "unit global_parameters \<times> world" where
  "example_default = getDefault 0 () example_renderer example_world"

text \<open>
  A renderer whose table of blend modes is empty, and the context and the world that
  \<^verbatim>\<open>new DrawingContext(renderer, { blendMode: -1 })\<close> returns for it in \<open>example_world\<close>
  (lemma \<open>example_bare_constructed\<close> below): with the blend mode it starts from, the
  constructor looks nothing up.
\<close>

definition example_bare_renderer :: renderer where
  "example_bare_renderer = example_renderer\<lparr>blendModes := []\<rparr>"

definition example_bare_context :: drawing_context where
  "example_bare_context =
     example_context\<lparr>ctx_renderer := example_bare_renderer, blendMode := - 1\<rparr>"

definition example_bare_world :: world where
  "example_bare_world = example_world1\<lparr>blends := (blends example_world1)(4 := empty_blend)\<rparr>"

section \<open>Evaluation of the examples\<close>

lemmas eval_defs = DrawingContext_new_def DrawingContext_init_def setBlendMode_def resize_def
  copy_def alloc_arr_def alloc_blend_def setCamera_def setAutoClear_def table_entry_def
  upd_blend_def deleteTexture_def deleteFramebuffer_def createTextureFromSource_def
  createFramebuffer_def Let_def to_number_def slice_color_def

lemmas example_defs = example_world_def example_renderer_def default_options_def
  example_context_def example_world1_def empty_blend_def example_copy_options_def
  example_copied_context_def example_world2_def example_canvas_context_def
  example_canvas_world_def

lemma example_constructed:
  "DrawingContext_new example_renderer default_options example_world =
     Inr (example_context, example_world1)"
  by (simp add: eval_defs example_defs)

lemma example_copy_constructed:
  "DrawingContext_new example_renderer example_copy_options example_world1 =
     Inr (example_copied_context, example_world2)"
  by (simp add: eval_defs example_defs)

lemma example_clone:
  "getClone True example_context example_world1 = Inr (example_copied_context, example_world2)"
  by (simp add: getClone_def copyFrom_options_def eval_defs example_defs)

lemma example_canvas_constructed:
  "DrawingContext_new example_renderer (default_options\<lparr>opt_useCanvas := True\<rparr>) example_world =
     Inr (example_canvas_context, example_canvas_world)"
  by (simp add: eval_defs example_defs)

section \<open>resize\<close>

lemma clamp_round:
  "roundable x \<Longrightarrow> is_int_ge1 (if js_le_zero (Math_round x) then Fin 1 else Math_round x)"
  by (cases x) auto

lemma resize_width:
  "width (fst (resize wd ht this w)) =
     Some (if js_le_zero (Math_round wd) then Fin 1 else Math_round wd)"
  by (simp add: resize_def Let_def split_def alloc_arr_def)

lemma resize_height:
  "height (fst (resize wd ht this w)) =
     Some (if js_le_zero (Math_round ht) then Fin 1 else Math_round ht)"
  by (simp add: resize_def Let_def split_def alloc_arr_def)

lemma resize_box:
  "arrs (snd (resize wd ht this w)) (st_scissor_box (fst (resize wd ht this w))) =
     [Fin 0, Fin 0, if js_le_zero (Math_round wd) then Fin 1 else Math_round wd,
      if js_le_zero (Math_round ht) then Fin 1 else Math_round ht]"
  by (simp add: resize_def Let_def split_def alloc_arr_def)

lemma resize_viewport:
  "arrs (snd (resize wd ht this w)) (st_viewport (fst (resize wd ht this w))) =
     [Fin 0, Fin 0, if js_le_zero (Math_round wd) then Fin 1 else Math_round wd,
      if js_le_zero (Math_round ht) then Fin 1 else Math_round ht]"
  by (simp add: resize_def Let_def split_def alloc_arr_def)

text \<open>
  Claim C2, as the code has it. After \<^verbatim>\<open>resize(width, height)\<close>, for all inputs, the
  arrays \<^verbatim>\<open>state.scissor.box\<close> and \<^verbatim>\<open>state.viewport\<close> both hold \<^verbatim>\<open>[0, 0, W, H]\<close> for the
  resulting width \<open>W\<close> and height \<open>H\<close> of the context. For every input width that is
  neither NaN nor plus infinity (zero, negative and fractional values and minus infinity
  included), \<open>W\<close> is an integer that is at least 1: a finite input is rounded to the
  nearest integer, ties upwards, and a result below 1 becomes 1. The same holds for the
  height.
\<close>

theorem resize_dimensions:
  "\<exists>W H. width (fst (resize wd ht this w)) = Some W \<and>
         height (fst (resize wd ht this w)) = Some H \<and>
         arrs (snd (resize wd ht this w)) (st_scissor_box (fst (resize wd ht this w))) =
           [Fin 0, Fin 0, W, H] \<and>
         arrs (snd (resize wd ht this w)) (st_viewport (fst (resize wd ht this w))) =
           [Fin 0, Fin 0, W, H] \<and>
         (roundable wd \<longrightarrow>
            is_int_ge1 W \<and>
            (case wd of Fin r \<Rightarrow> W = Fin (of_int (max 1 (round r))) | _ \<Rightarrow> W = Fin 1)) \<and>
         (roundable ht \<longrightarrow>
            is_int_ge1 H \<and>
            (case ht of Fin r \<Rightarrow> H = Fin (of_int (max 1 (round r))) | _ \<Rightarrow> H = Fin 1))"
proof -
  let ?W = "if js_le_zero (Math_round wd) then Fin 1 else Math_round wd"
  let ?H = "if js_le_zero (Math_round ht) then Fin 1 else Math_round ht"
  have W: "is_int_ge1 ?W" if "roundable wd" using that by (rule clamp_round)
  have H: "is_int_ge1 ?H" if "roundable ht" using that by (rule clamp_round)
  have Wv: "case wd of Fin r \<Rightarrow> ?W = Fin (of_int (max 1 (round r))) | _ \<Rightarrow> ?W = Fin 1"
    if "roundable wd" using that by (cases wd) (auto simp: round_def max_def)
  have Hv: "case ht of Fin r \<Rightarrow> ?H = Fin (of_int (max 1 (round r))) | _ \<Rightarrow> ?H = Fin 1"
    if "roundable ht" using that by (cases ht) (auto simp: round_def max_def)
  show ?thesis
    using W H Wv Hv resize_width [of wd ht this w] resize_height [of wd ht this w]
      resize_box [of wd ht this w] resize_viewport [of wd ht this w]
    by blast
qed

text \<open>The theorem at \<^verbatim>\<open>resize(-3.5, 2.5)\<close>: the context becomes 1 by 3.\<close>

theorem resize_dimensions_witness:
  "roundable (Fin (- 7 / 2)) \<and> roundable (Fin (5 / 2)) \<and>
   width (fst (resize (Fin (- 7 / 2)) (Fin (5 / 2)) example_context example_world1)) =
     Some (Fin 1) \<and>
   height (fst (resize (Fin (- 7 / 2)) (Fin (5 / 2)) example_context example_world1)) =
     Some (Fin 3) \<and>
   arrs (snd (resize (Fin (- 7 / 2)) (Fin (5 / 2)) example_context example_world1))
     (st_viewport (fst (resize (Fin (- 7 / 2)) (Fin (5 / 2)) example_context example_world1))) =
     [Fin 0, Fin 0, Fin 1, Fin 3]"
  using resize_dimensions [of "Fin (- 7 / 2)" "Fin (5 / 2)" example_context example_world1]
  by (auto simp: round_def)

text \<open>
  \<^verbatim>\<open>resize(NaN, Infinity)\<close>: \<^verbatim>\<open>Math.round\<close> returns both as they are, neither is
  \<^verbatim>\<open><= 0\<close>, and the context's width is NaN and its height is infinite: not integers.
\<close>

theorem resize_NaN_counterexample:
  "width (fst (resize NaN PosInf example_context example_world1)) = Some NaN \<and>
   height (fst (resize NaN PosInf example_context example_world1)) = Some PosInf \<and>
   \<not> is_int_ge1 NaN \<and> \<not> is_int_ge1 PosInf"
  by (simp add: resize_width resize_height)

section \<open>setBlendMode\<close>

text \<open>
  Claim C4. When \<^verbatim>\<open>setBlendMode(b)\<close> is called with \<open>b\<close> different from the current
  \<^verbatim>\<open>blendMode\<close> and the renderer's table has no entry at \<open>b\<close>, the call throws (a
  TypeError, from reading \<^verbatim>\<open>enable\<close> of undefined): it does not return normally, and at
  the throw the context, with its \<^verbatim>\<open>blendMode\<close>, and the world, with \<^verbatim>\<open>state.blend\<close>,
  are as they were before the call.
\<close>

theorem setBlendMode_invalid_index:
  assumes "b \<noteq> blendMode this"
    and "table_entry (blendModes (ctx_renderer this)) b = None"
  shows "setBlendMode b c this w = Inl (TypeError, this, w)"
  using assms by (simp add: setBlendMode_def)

text \<open>The theorem at \<^verbatim>\<open>setBlendMode(7)\<close> on a renderer with two blend modes.\<close>

theorem setBlendMode_invalid_index_witness:
  "(7::int) \<noteq> blendMode example_context \<and>
   table_entry (blendModes (ctx_renderer example_context)) 7 = None \<and>
   setBlendMode 7 None example_context example_world1 =
     Inl (TypeError, example_context, example_world1)"
proof -
  have h1: "(7::int) \<noteq> blendMode example_context"
    by (simp add: example_context_def)
  have h2: "table_entry (blendModes (ctx_renderer example_context)) 7 = None"
    by (simp add: example_context_def example_renderer_def table_entry_def)
  show ?thesis
    using h1 h2 setBlendMode_invalid_index [OF h1 h2, of None example_world1] by simp
qed

lemma setBlendMode_same:
  "setBlendMode (blendMode this) c this w = Inr (this, w)"
  by (simp add: setBlendMode_def)

lemma setBlendMode_changed:
  assumes "b \<noteq> blendMode this"
    and "table_entry (blendModes (ctx_renderer this)) b = Some e"
  shows "\<exists>w'. setBlendMode b c this w = Inr (this\<lparr>blendMode := b\<rparr>, w') \<and>
          blends w' (st_blend this) =
            \<lparr>color = c, enable = enable (blends w e), equation = equation (blends w e),
             func = func (blends w e)\<rparr> \<and>
          (\<forall>a. a \<noteq> st_blend this \<longrightarrow> blends w' a = blends w a) \<and>
          arrs w' = arrs w \<and> next_addr w' = next_addr w \<and>
          next_handle w' = next_handle w \<and> calls w' = calls w"
  using assms
  by (cases c) (auto simp: setBlendMode_def upd_blend_def Let_def)

text \<open>
  Claim C5. \<^verbatim>\<open>setBlendMode(b, c)\<close> with \<open>b\<close> equal to the current \<^verbatim>\<open>blendMode\<close> returns
  with the context and the whole world unchanged, whatever \<open>c\<close> is and whatever the table
  holds (it is not read: the call returns even where the table has no entry at \<open>b\<close>). With
  \<open>b\<close> different and an entry \<open>e\<close> at \<open>b\<close>, the call returns with \<^verbatim>\<open>blendMode\<close> set to
  \<open>b\<close>; the object \<^verbatim>\<open>state.blend\<close> is the same object, and it holds the entry's
  \<^verbatim>\<open>enable\<close>, \<^verbatim>\<open>equation\<close> and \<^verbatim>\<open>func\<close> and the color \<open>c\<close> (undefined when \<open>c\<close> is left
  out); nothing else in the world changes.
\<close>

theorem setBlendMode_effect:
  "(b = blendMode this \<longrightarrow> setBlendMode b c this w = Inr (this, w)) \<and>
   (b \<noteq> blendMode this \<longrightarrow> table_entry (blendModes (ctx_renderer this)) b = Some e \<longrightarrow>
      (\<exists>w'. setBlendMode b c this w = Inr (this\<lparr>blendMode := b\<rparr>, w') \<and>
          blends w' (st_blend this) =
            \<lparr>color = c, enable = enable (blends w e), equation = equation (blends w e),
             func = func (blends w e)\<rparr> \<and>
          (\<forall>a. a \<noteq> st_blend this \<longrightarrow> blends w' a = blends w a) \<and>
          arrs w' = arrs w \<and> next_addr w' = next_addr w \<and>
          next_handle w' = next_handle w \<and> calls w' = calls w))"
  using setBlendMode_same [of this c w] setBlendMode_changed [of b this e c w] by blast

text \<open>
  The theorem on the example context, whose blend mode is 0: \<^verbatim>\<open>setBlendMode(0, c)\<close> changes
  nothing, also after the table has lost all its entries, and \<^verbatim>\<open>setBlendMode(1, c)\<close>
  writes the fields of entry 1 into the object at address 4.
\<close>

theorem setBlendMode_effect_witness:
  "setBlendMode 0 (Some 5) example_context example_world1 =
     Inr (example_context, example_world1) \<and>
   setBlendMode 0 (Some 5)
     (example_context\<lparr>ctx_renderer := example_renderer\<lparr>blendModes := []\<rparr>\<rparr>) example_world1 =
     Inr (example_context\<lparr>ctx_renderer := example_renderer\<lparr>blendModes := []\<rparr>\<rparr>,
          example_world1) \<and>
   (1::int) \<noteq> blendMode example_context \<and>
   table_entry (blendModes (ctx_renderer example_context)) 1 = Some 1 \<and>
   st_blend example_context = 4 \<and>
   (\<exists>w'. setBlendMode 1 (Some 5) example_context example_world1 =
            Inr (example_context\<lparr>blendMode := 1\<rparr>, w') \<and>
         blends w' 4 =
           \<lparr>color = Some 5, enable = Bool True, equation = Num (Fin 32774),
            func = ArrRef 3\<rparr>)"
proof -
  have h1: "(1::int) \<noteq> blendMode example_context"
    by (simp add: example_context_def)
  have h2: "table_entry (blendModes (ctx_renderer example_context)) 1 = Some 1"
    by (simp add: example_context_def example_renderer_def table_entry_def)
  have h3: "blendMode (example_context\<lparr>ctx_renderer := example_renderer\<lparr>blendModes := []\<rparr>\<rparr>) = 0"
    by (simp add: example_context_def)
  have h4: "blendMode example_context = 0" "st_blend example_context = 4"
    by (simp_all add: example_context_def)
  have e1: "blends example_world1 1 =
      \<lparr>color = None, enable = Bool True, equation = Num (Fin 32774), func = ArrRef 3\<rparr>"
    by (simp add: example_world1_def)
  show ?thesis
    using h1 h2 h3 h4 e1
      setBlendMode_effect [of 0 example_context "Some 5" example_world1 0]
      setBlendMode_effect [of 0 "example_context\<lparr>ctx_renderer := example_renderer\<lparr>blendModes := []\<rparr>\<rparr>"
        "Some 5" example_world1 0]
      setBlendMode_effect [of 1 example_context "Some 5" example_world1 1]
    by auto
qed

section \<open>setClearColor\<close>

lemma eq_elems_take:
  "(eq_elem r cc 0 \<and> eq_elem g cc 1 \<and> eq_elem b cc 2 \<and> eq_elem a cc 3) =
   list_all2 js_strict_eq [r, g, b, a] (take 4 cc)"
proof (cases cc)
  case Nil
  then show ?thesis by (simp add: eq_elem_def)
next
  case c1: (Cons x1 t1)
  show ?thesis
  proof (cases t1)
    case Nil
    with c1 show ?thesis by (simp add: eq_elem_def)
  next
    case c2: (Cons x2 t2)
    show ?thesis
    proof (cases t2)
      case Nil
      with c1 c2 show ?thesis by (simp add: eq_elem_def)
    next
      case c3: (Cons x3 t3)
      show ?thesis
      proof (cases t3)
        case Nil
        with c1 c2 c3 show ?thesis by (simp add: eq_elem_def)
      next
        case (Cons x4 t4)
        with c1 c2 c3 show ?thesis by (simp add: eq_elem_def)
      qed
    qed
  qed
qed

lemma setClearColor_same:
  assumes "list_all2 js_strict_eq [r, g, b, a] (take 4 (arrs w (st_colorClearValue this)))"
  shows "setClearColor r g b a this w = (this, w)"
  using assms unfolding setClearColor_def Let_def eq_elems_take by simp

lemma setClearColor_changed:
  assumes "\<not> list_all2 js_strict_eq [r, g, b, a] (take 4 (arrs w (st_colorClearValue this)))"
  shows "setClearColor r g b a this w =
           (this\<lparr>st_colorClearValue := next_addr w\<rparr>,
            w\<lparr>arrs := (arrs w)(next_addr w := [r, g, b, a]), next_addr := Suc (next_addr w)\<rparr>)"
  using assms unfolding setClearColor_def Let_def eq_elems_take by (simp add: alloc_arr_def)

text \<open>
  Claim C7. When each of \<open>r\<close>, \<open>g\<close>, \<open>b\<close>, \<open>a\<close> is equal (\<^verbatim>\<open>===\<close>) to the component
  stored at its place in \<^verbatim>\<open>state.colorClearValue\<close>, \<^verbatim>\<open>setClearColor(r, g, b, a)\<close> changes
  neither the context nor the world: no array is allocated and \<^verbatim>\<open>state.colorClearValue\<close>
  is the same array. When a component differs, \<^verbatim>\<open>state.colorClearValue\<close> becomes a new
  array, at the address that was free, holding exactly \<^verbatim>\<open>[r, g, b, a]\<close>; nothing else
  changes.
\<close>

theorem setClearColor_effect:
  "(list_all2 js_strict_eq [r, g, b, a] (take 4 (arrs w (st_colorClearValue this))) \<longrightarrow>
      setClearColor r g b a this w = (this, w)) \<and>
   (\<not> list_all2 js_strict_eq [r, g, b, a] (take 4 (arrs w (st_colorClearValue this))) \<longrightarrow>
      setClearColor r g b a this w =
        (this\<lparr>st_colorClearValue := next_addr w\<rparr>,
         w\<lparr>arrs := (arrs w)(next_addr w := [r, g, b, a]), next_addr := Suc (next_addr w)\<rparr>))"
  using setClearColor_same [of r g b a w this] setClearColor_changed [of r g b a w this]
  by blast

lemma example_colorClearValue: "arrs example_world1 (st_colorClearValue example_context) = [Fin 0, Fin 0, Fin 0, Fin 0]"
  by (simp add: example_context_def example_world1_def)

text \<open>The theorem on the example context, whose clear color is \<^verbatim>\<open>[0, 0, 0, 0]\<close> at
  address 5: the same color changes nothing, another one is stored at address 10.\<close>

theorem setClearColor_effect_witness:
  "arrs example_world1 (st_colorClearValue example_context) = [Fin 0, Fin 0, Fin 0, Fin 0] \<and>
   setClearColor (Fin 0) (Fin 0) (Fin 0) (Fin 0) example_context example_world1 =
     (example_context, example_world1) \<and>
   st_colorClearValue (fst (setClearColor (Fin 1) (Fin 0) (Fin 0) (Fin 1) example_context example_world1)) = 10 \<and>
   arrs (snd (setClearColor (Fin 1) (Fin 0) (Fin 0) (Fin 1) example_context example_world1)) 10 =
     [Fin 1, Fin 0, Fin 0, Fin 1] \<and>
   arrs (snd (setClearColor (Fin 1) (Fin 0) (Fin 0) (Fin 1) example_context example_world1)) 5 =
     [Fin 0, Fin 0, Fin 0, Fin 0]"
  using setClearColor_effect [of "Fin 0" "Fin 0" "Fin 0" "Fin 0" example_world1 example_context]
    setClearColor_effect [of "Fin 1" "Fin 0" "Fin 0" "Fin 1" example_world1 example_context]
  by (simp add: example_colorClearValue) (simp add: example_world1_def)

section \<open>getClone\<close>

lemma resize_autoClear: "autoClear (fst (resize wd ht this w)) = autoClear this"
  by (simp add: resize_def Let_def split_def alloc_arr_def)

lemma copy_autoClear: "autoClear (fst (copy source this w)) = autoClear source"
  by (simp add: copy_def Let_def split_def resize_autoClear)

lemma setAutoClear_none: "autoClear (setAutoClear False False False this) = 0"
  by (simp add: setAutoClear_def)

lemma init_returns:
  assumes "table_entry (blendModes rndr) (case opt_blendMode opts of None \<Rightarrow> 0 | Some b \<Rightarrow> b) = Some e"
  shows "\<exists>c w'. DrawingContext_init rndr opts w = Inr (c, w')"
  using assms
  by (simp add: DrawingContext_init_def setBlendMode_def Let_def split_def setCamera_def)

lemma new_copyFrom_returns:
  assumes "table_entry (blendModes rndr) 0 = Some e"
  shows "\<exists>c0 w0. DrawingContext_init rndr (copyFrom_options source) w = Inr (c0, w0) \<and>
           DrawingContext_new rndr (copyFrom_options source) w = Inr (copy source c0 w0)"
proof -
  have "table_entry (blendModes rndr)
          (case opt_blendMode (copyFrom_options source) of None \<Rightarrow> 0 | Some b \<Rightarrow> b) = Some e"
    using assms by (simp add: copyFrom_options_def)
  from init_returns [OF this, of w]
  obtain c0 w0 where i: "DrawingContext_init rndr (copyFrom_options source) w = Inr (c0, w0)"
    by blast
  then have "DrawingContext_new rndr (copyFrom_options source) w = Inr (copy source c0 w0)"
    by (simp add: DrawingContext_new_def copyFrom_options_def)
  with i show ?thesis by blast
qed

section \<open>The constructor\<close>

lemma setBlendMode_frame:
  assumes "setBlendMode b col this w = Inr (c, w')"
  shows "c = this\<lparr>blendMode := blendMode c\<rparr> \<and> arrs w' = arrs w \<and>
         next_addr w' = next_addr w \<and> next_handle w' = next_handle w \<and> calls w' = calls w"
  using assms
  by (cases col) (auto simp: setBlendMode_def upd_blend_def Let_def split: if_splits option.splits)

lemma init_fields:
  assumes "DrawingContext_init rndr opts w = Inr (c, w')"
  shows "st_scissor_enable c = True \<and> useCanvas c = opt_useCanvas opts \<and>
         framebuffer c = None \<and> texture c = None \<and> st_framebuffer c = None \<and>
         ctx_renderer c = rndr \<and> next_handle w' = next_handle w \<and>
         calls w' = calls w @ (if opt_autoResize opts then [OnResize] else [])"
proof -
  obtain this0 w4 this1 w5 where
    sb: "setBlendMode (case opt_blendMode opts of None \<Rightarrow> 0 | Some b \<Rightarrow> b) None this0 w4 = Inr (this1, w5)"
    and t0: "st_scissor_enable this0" "st_framebuffer this0 = None" "ctx_renderer this0 = rndr"
    and w4: "next_handle w4 = next_handle w" "calls w4 = calls w"
    and c: "st_scissor_enable c = st_scissor_enable this1" "useCanvas c = opt_useCanvas opts"
       "framebuffer c = None" "texture c = None" "st_framebuffer c = st_framebuffer this1"
       "ctx_renderer c = ctx_renderer this1"
    and w': "next_handle w' = next_handle w5"
       "calls w' = calls w5 @ (if opt_autoResize opts then [OnResize] else [])"
    using assms
    by (auto simp: DrawingContext_init_def Let_def split_def alloc_arr_def alloc_blend_def
        setCamera_def setAutoClear_def
        split: sum.splits autoClear_option.splits bool.splits option.splits if_splits)
  from setBlendMode_frame [OF sb]
  have f: "this1 = this0\<lparr>blendMode := blendMode this1\<rparr>" "next_handle w5 = next_handle w4"
    "calls w5 = calls w4" by simp_all
  have "st_scissor_enable this1 = st_scissor_enable this0"
    "st_framebuffer this1 = st_framebuffer this0" "ctx_renderer this1 = ctx_renderer this0"
    by (subst f(1), simp)+
  with t0 w4 c w' f show ?thesis by simp
qed

lemma resize_scissor_enable:
  "st_scissor_enable (fst (resize wd ht this w)) = st_scissor_enable this"
  by (simp add: resize_def Let_def split_def alloc_arr_def)

lemma getDefault_scissor_enable:
  "gp_scissor_enable (fst (getDefault NORMAL stencil rndr w)) = False"
  by (simp add: getDefault_def Let_def split_def)

text \<open>
  Claim C10. Every context that the constructor returns for options without
  \<^verbatim>\<open>copyFrom\<close> has \<^verbatim>\<open>state.scissor.enable\<close> true, while the descriptor that the factory's
  \<^verbatim>\<open>getDefault\<close> returns has \<^verbatim>\<open>scissor.enable\<close> false.
\<close>

theorem constructor_scissor_enable:
  "(opt_copyFrom opts = None \<longrightarrow> DrawingContext_new rndr opts w = Inr (c, w') \<longrightarrow>
      st_scissor_enable c = True) \<and>
   gp_scissor_enable (fst (getDefault NORMAL stencil rndr' w'')) = False"
proof -
  have "st_scissor_enable c = True"
    if n: "opt_copyFrom opts = None" and r: "DrawingContext_new rndr opts w = Inr (c, w')"
  proof -
    from r n obtain c0 w0 where i: "DrawingContext_init rndr opts w = Inr (c0, w0)"
      and e: "(c, w') = resize (r_width rndr) (r_height rndr) c0 w0"
      by (auto simp: DrawingContext_new_def split: sum.splits)
    from e have "c = fst (resize (r_width rndr) (r_height rndr) c0 w0)"
      by (metis fst_conv)
    then show ?thesis using init_fields [OF i] resize_scissor_enable by simp
  qed
  then show ?thesis by (simp add: getDefault_scissor_enable)
qed

text \<open>The theorem at \<^verbatim>\<open>new DrawingContext(renderer, {})\<close> in the example world.\<close>

theorem constructor_scissor_enable_witness:
  "opt_copyFrom default_options = None \<and>
   DrawingContext_new example_renderer default_options example_world =
     Inr (example_context, example_world1) \<and>
   st_scissor_enable example_context = True \<and>
   gp_scissor_enable (fst (getDefault 0 () example_renderer example_world)) = False"
proof -
  have h: "opt_copyFrom default_options = None" by (simp add: default_options_def)
  show ?thesis
    using h example_constructed
      constructor_scissor_enable [of default_options example_renderer example_world
        example_context example_world1 0 "()" example_renderer example_world]
    by simp
qed

section \<open>The canvas framebuffer\<close>

lemma resize_canvas_first:
  assumes "useCanvas this" and "framebuffer this = None"
  shows "useCanvas (fst (resize wd ht this w)) \<and>
         framebuffer (fst (resize wd ht this w)) = Some (next_handle w) \<and>
         texture (fst (resize wd ht this w)) = texture this \<and>
         calls (snd (resize wd ht this w)) = calls w @ [CreateFramebuffer None (next_handle w)]"
  using assms by (simp add: resize_def Let_def split_def alloc_arr_def createFramebuffer_def)

lemma resize_canvas_again:
  assumes "useCanvas this" and "framebuffer this = Some h"
  shows "useCanvas (fst (resize wd ht this w)) \<and>
         framebuffer (fst (resize wd ht this w)) = Some h \<and>
         calls (snd (resize wd ht this w)) = calls w"
  using assms by (simp add: resize_def Let_def split_def alloc_arr_def)

lemma resize_all_canvas:
  assumes "useCanvas this" and "framebuffer this = Some h"
  shows "useCanvas (fst (resize_all sizes this w)) \<and>
         framebuffer (fst (resize_all sizes this w)) = Some h \<and>
         calls (snd (resize_all sizes this w)) = calls w"
  using assms
proof (induction sizes arbitrary: this w)
  case Nil
  then show ?case by simp
next
  case (Cons s rest)
  obtain wd ht where s: "s = (wd, ht)" by (cases s)
  obtain c1 w1 where r: "resize wd ht this w = (c1, w1)" by (cases "resize wd ht this w")
  from resize_canvas_again [OF Cons.prems, of wd ht w] r
  have k: "useCanvas c1" "framebuffer c1 = Some h" "calls w1 = calls w" by simp_all
  from Cons.IH [OF k(1) k(2), of w1] k(3) s r show ?case by simp
qed

text \<open>
  Claim C8, as the code has it. For every context that the constructor returns for
  options with \<^verbatim>\<open>useCanvas\<close> true and without \<^verbatim>\<open>copyFrom\<close>, the framebuffer that wraps the
  canvas is created exactly once: the constructor's \<^verbatim>\<open>resize\<close> creates it (the only call
  it makes on the renderer, after the subscription when \<^verbatim>\<open>autoResize\<close> is set), and after
  any number of further calls of \<^verbatim>\<open>resize\<close>, with any sizes, \<^verbatim>\<open>framebuffer\<close> is that same
  framebuffer and no further call has been made on the renderer.
\<close>

theorem canvas_framebuffer_created_once:
  assumes "opt_useCanvas opts" and "opt_copyFrom opts = None"
    and "DrawingContext_new rndr opts w = Inr (c, w1)"
  shows "framebuffer c = Some (next_handle w) \<and>
         calls w1 = calls w @ (if opt_autoResize opts then [OnResize] else []) @
                      [CreateFramebuffer None (next_handle w)] \<and>
         framebuffer (fst (resize_all sizes c w1)) = Some (next_handle w) \<and>
         calls (snd (resize_all sizes c w1)) = calls w1"
proof -
  from assms(2,3) obtain c0 w0 where i: "DrawingContext_init rndr opts w = Inr (c0, w0)"
    and e: "resize (r_width rndr) (r_height rndr) c0 w0 = (c, w1)"
    by (auto simp: DrawingContext_new_def split: sum.splits)
  from init_fields [OF i] assms(1)
  have c0: "useCanvas c0" "framebuffer c0 = None" "next_handle w0 = next_handle w"
    "calls w0 = calls w @ (if opt_autoResize opts then [OnResize] else [])" by simp_all
  from resize_canvas_first [OF c0(1) c0(2), of "r_width rndr" "r_height rndr" w0] e c0(3,4)
  have c: "useCanvas c" "framebuffer c = Some (next_handle w)"
    "calls w1 = calls w @ (if opt_autoResize opts then [OnResize] else []) @
                      [CreateFramebuffer None (next_handle w)]" by simp_all
  from resize_all_canvas [OF c(1) c(2), of sizes w1] c show ?thesis by simp
qed

text \<open>The theorem at \<^verbatim>\<open>new DrawingContext(renderer, { useCanvas: true })\<close> in the example
  world, followed by three calls of \<^verbatim>\<open>resize\<close>.\<close>

theorem canvas_framebuffer_created_once_witness:
  "opt_useCanvas (default_options\<lparr>opt_useCanvas := True\<rparr>) \<and>
   opt_copyFrom (default_options\<lparr>opt_useCanvas := True\<rparr>) = None \<and>
   DrawingContext_new example_renderer (default_options\<lparr>opt_useCanvas := True\<rparr>) example_world =
     Inr (example_canvas_context, example_canvas_world) \<and>
   framebuffer example_canvas_context = Some 0 \<and>
   calls example_canvas_world = [CreateFramebuffer None 0] \<and>
   framebuffer (fst (resize_all [(Fin 100, Fin 100), (Fin 100, Fin 100), (Fin 3, NaN)]
     example_canvas_context example_canvas_world)) = Some 0 \<and>
   calls (snd (resize_all [(Fin 100, Fin 100), (Fin 100, Fin 100), (Fin 3, NaN)]
     example_canvas_context example_canvas_world)) = [CreateFramebuffer None 0]"
proof -
  have h1: "opt_useCanvas (default_options\<lparr>opt_useCanvas := True\<rparr>)" by simp
  have h2: "opt_copyFrom (default_options\<lparr>opt_useCanvas := True\<rparr>) = None"
    by (simp add: default_options_def)
  have w: "next_handle example_world = 0" "calls example_world = []"
    "opt_autoResize (default_options\<lparr>opt_useCanvas := True\<rparr>) = False"
    by (simp_all add: example_world_def default_options_def)
  show ?thesis
    using h1 h2 w example_canvas_constructed
      canvas_framebuffer_created_once [OF h1 h2 example_canvas_constructed,
        of "[(Fin 100, Fin 100), (Fin 100, Fin 100), (Fin 3, NaN)]"]
    by simp
qed

text \<open>
  Constructed with \<^verbatim>\<open>{ useCanvas: true, copyFrom: context }\<close> for a context that is not on
  the canvas: \<^verbatim>\<open>copy\<close> overwrites \<^verbatim>\<open>useCanvas\<close> with the source's false, and the next
  \<^verbatim>\<open>resize\<close> deletes framebuffer 3 and creates framebuffer 5.
\<close>

theorem canvas_copyFrom_counterexample:
  "opt_useCanvas example_copy_options \<and>
   DrawingContext_new example_renderer example_copy_options example_world1 =
     Inr (example_copied_context, example_world2) \<and>
   useCanvas example_copied_context = False \<and>
   framebuffer example_copied_context = Some 3 \<and>
   framebuffer (fst (resize (Fin 100) (Fin 100) example_copied_context example_world2)) = Some 5 \<and>
   calls (snd (resize (Fin 100) (Fin 100) example_copied_context example_world2)) =
     calls example_world2 @
       [DeleteTexture 2, DeleteFramebuffer 3,
        CreateTexture (Fin 100) (Fin 100) 4, CreateFramebuffer (Some 4) 5]"
  using example_copy_constructed
  by (simp add: eval_defs example_defs)

section \<open>copy\<close>

text \<open>
  \<^verbatim>\<open>copy\<close> from any source that is not on the canvas: the \<^verbatim>\<open>resize\<close> that ends it
  deletes the texture and the framebuffer of the source, and gives the copying context a
  new texture and a new framebuffer.
\<close>

lemma resize_non_canvas_calls:
  assumes "\<not> useCanvas this" and "texture this = Some t" and "st_framebuffer this = Some f"
  shows "\<exists>W H. calls (snd (resize wd ht this w)) =
           calls w @ [DeleteTexture t, DeleteFramebuffer f,
                      CreateTexture W H (next_handle w),
                      CreateFramebuffer (Some (next_handle w)) (Suc (next_handle w))] \<and>
         texture (fst (resize wd ht this w)) = Some (next_handle w) \<and>
         framebuffer (fst (resize wd ht this w)) = Some (Suc (next_handle w))"
  using assms
  by (simp add: resize_def Let_def split_def alloc_arr_def deleteTexture_def
      deleteFramebuffer_def createTextureFromSource_def createFramebuffer_def)

lemma copy_as_resize:
  "\<exists>this2 w5. copy source this w = resize (to_number (width source)) (to_number (height source)) this2 w5 \<and>
      useCanvas this2 = useCanvas source \<and> texture this2 = texture source \<and>
      st_framebuffer this2 = st_framebuffer source \<and>
      calls w5 = calls w \<and> next_handle w5 = next_handle w"
  unfolding copy_def Let_def split_def
  by (rule exI, rule exI, rule conjI, rule refl)
    (simp add: alloc_arr_def alloc_blend_def slice_color_def split: option.splits)

lemma copy_non_canvas_calls:
  assumes "\<not> useCanvas source" and "texture source = Some t"
    and "st_framebuffer source = Some f"
  shows "\<exists>W H. calls (snd (copy source this w)) =
           calls w @ [DeleteTexture t, DeleteFramebuffer f,
                      CreateTexture W H (next_handle w),
                      CreateFramebuffer (Some (next_handle w)) (Suc (next_handle w))] \<and>
         texture (fst (copy source this w)) = Some (next_handle w) \<and>
         framebuffer (fst (copy source this w)) = Some (Suc (next_handle w))"
proof -
  from copy_as_resize [of source this w]
  obtain this2 w5 where
    c: "copy source this w = resize (to_number (width source)) (to_number (height source)) this2 w5"
    and t: "useCanvas this2 = useCanvas source" "texture this2 = texture source"
      "st_framebuffer this2 = st_framebuffer source"
    and w5: "calls w5 = calls w" "next_handle w5 = next_handle w"
    by blast
  from assms t have "\<not> useCanvas this2" "texture this2 = Some t" "st_framebuffer this2 = Some f"
    by simp_all
  from resize_non_canvas_calls [OF this, of "to_number (width source)"
      "to_number (height source)" w5] c w5
  show ?thesis by simp
qed

text \<open>
  Claim C1 fails on the code; this is the code at a failing input. The example context is
  not on the canvas and holds texture 0 and framebuffer 1. \<^verbatim>\<open>getClone(true)\<close> on it runs
  \<^verbatim>\<open>copy\<close> of it on a new context: \<^verbatim>\<open>copy\<close> stores the source's texture and framebuffer
  in the new context, and the \<^verbatim>\<open>resize\<close> that ends it deletes both, texture 0 and
  framebuffer 1, and leaves the new context with texture 2 and framebuffer 3 of its own.
\<close>

theorem copy_deletes_source_resources:
  "useCanvas example_context = False \<and>
   texture example_context = Some 0 \<and> framebuffer example_context = Some 1 \<and>
   getClone True example_context example_world1 = Inr (example_copied_context, example_world2) \<and>
   texture example_copied_context = Some 2 \<and> framebuffer example_copied_context = Some 3 \<and>
   calls example_world2 =
     calls example_world1 @
       [DeleteTexture 0, DeleteFramebuffer 1,
        CreateTexture (Fin 800) (Fin 600) 2, CreateFramebuffer (Some 2) 3]"
  using example_clone by (simp add: example_defs)

section \<open>The blend mode and the blend state\<close>

lemma blend_consistent_cong:
  assumes "blends w' = blends w" and "st_blend c' = st_blend c" and "blendMode c' = blendMode c"
  shows "blend_consistent tbl c' w' = blend_consistent tbl c w"
  using assms by (simp add: blend_consistent_def split: option.splits)

lemma resize_blend_frame:
  "blends (snd (resize wd ht this w)) = blends w \<and>
   st_blend (fst (resize wd ht this w)) = st_blend this \<and>
   blendMode (fst (resize wd ht this w)) = blendMode this \<and>
   ctx_renderer (fst (resize wd ht this w)) = ctx_renderer this"
  by (simp add: resize_def Let_def split_def alloc_arr_def deleteTexture_def
      deleteFramebuffer_def createTextureFromSource_def createFramebuffer_def
      split: option.splits)

lemma setClearColor_blend_frame:
  "blends (snd (setClearColor r g b a this w)) = blends w \<and>
   st_blend (fst (setClearColor r g b a this w)) = st_blend this \<and>
   blendMode (fst (setClearColor r g b a this w)) = blendMode this \<and>
   ctx_renderer (fst (setClearColor r g b a this w)) = ctx_renderer this"
  by (simp add: setClearColor_def Let_def split_def alloc_arr_def)

lemma setScissorBox_blend_frame:
  "blends (snd (setScissorBox x y wd ht this w)) = blends w \<and>
   st_blend (fst (setScissorBox x y wd ht this w)) = st_blend this \<and>
   blendMode (fst (setScissorBox x y wd ht this w)) = blendMode this \<and>
   ctx_renderer (fst (setScissorBox x y wd ht this w)) = ctx_renderer this"
  by (simp add: setScissorBox_def Let_def split_def alloc_arr_def)

lemma setBlendMode_thrown:
  assumes "setBlendMode b col this w = Inl (e, c', w')"
  shows "c' = this \<and> w' = w"
  using assms by (auto simp: setBlendMode_def Let_def split: if_splits option.splits)

lemma setBlendMode_consistent:
  assumes "setBlendMode b col this w = Inr (c', w')"
    and "blend_consistent (blendModes (ctx_renderer this)) this w"
  shows "blend_consistent (blendModes (ctx_renderer this)) c' w'"
proof (cases "b = blendMode this")
  case True
  with assms show ?thesis by (simp add: setBlendMode_def)
next
  case False
  with assms(1) obtain e where e: "table_entry (blendModes (ctx_renderer this)) b = Some e"
    by (auto simp: setBlendMode_def Let_def split: option.splits)
  from setBlendMode_changed [OF False e, of col w] assms(1)
  have c': "c' = this\<lparr>blendMode := b\<rparr>"
    and b: "blends w' (st_blend this) =
            \<lparr>color = col, enable = enable (blends w e), equation = equation (blends w e),
             func = func (blends w e)\<rparr>"
    and o: "\<forall>a. a \<noteq> st_blend this \<longrightarrow> blends w' a = blends w a"
    by auto
  show ?thesis
  proof (cases "e = st_blend this")
    case True
    with c' e show ?thesis by (simp add: blend_consistent_def)
  next
    case False
    with o have "blends w' e = blends w e" by simp
    with c' e b show ?thesis by (simp add: blend_consistent_def)
  qed
qed

lemma copy_blend:
  "blendMode (fst (copy source this w)) = blendMode source \<and>
   st_blend (fst (copy source this w)) = next_addr (snd (slice_color (color (blends w (st_blend source))) w)) \<and>
   blends (snd (copy source this w)) =
     (blends w)(st_blend (fst (copy source this w)) :=
        \<lparr>color = fst (slice_color (color (blends w (st_blend source))) w),
         enable = enable (blends w (st_blend source)),
         equation = equation (blends w (st_blend source)),
         func = func (blends w (st_blend source))\<rparr>) \<and>
   ctx_renderer (fst (copy source this w)) = ctx_renderer this"
  by (simp add: copy_def Let_def split_def resize_blend_frame alloc_arr_def alloc_blend_def
      slice_color_def split: option.splits)

lemma copy_consistent:
  assumes "blend_consistent tbl source w"
  shows "blend_consistent tbl (fst (copy source this w)) (snd (copy source this w))"
proof -
  let ?c = "fst (copy source this w)" and ?w = "snd (copy source this w)"
  from copy_blend [of source this w]
  have m: "blendMode ?c = blendMode source"
    and b: "blends ?w = (blends w)(st_blend ?c :=
        \<lparr>color = fst (slice_color (color (blends w (st_blend source))) w),
         enable = enable (blends w (st_blend source)),
         equation = equation (blends w (st_blend source)),
         func = func (blends w (st_blend source))\<rparr>)"
    by simp_all
  show ?thesis
  proof (cases "table_entry tbl (blendMode source)")
    case None
    with assms m b show ?thesis by (simp add: blend_consistent_def)
  next
    case (Some e)
    with assms m b show ?thesis by (cases "e = st_blend ?c") (simp_all add: blend_consistent_def)
  qed
qed

lemma init_consistent:
  assumes "DrawingContext_init rndr opts w = Inr (c, w')"
  shows "blend_consistent (blendModes rndr) c w'"
proof -
  let ?b = "case opt_blendMode opts of None \<Rightarrow> 0 | Some b \<Rightarrow> b"
  obtain this0 w4 this1 w5 where
    sb: "setBlendMode ?b None this0 w4 = Inr (this1, w5)"
    and t0: "blendMode this0 = - 1" "ctx_renderer this0 = rndr"
      "blends w4 (st_blend this0) = empty_blend"
    and c: "st_blend c = st_blend this1" "blendMode c = blendMode this1"
    and w': "blends w' = blends w5"
    using assms
    by (auto simp: DrawingContext_init_def Let_def split_def alloc_arr_def alloc_blend_def
        setCamera_def setAutoClear_def
        split: sum.splits autoClear_option.splits bool.splits option.splits if_splits)
  have "table_entry (blendModes rndr) (- 1) = None" by (simp add: table_entry_def)
  with t0 have "blend_consistent (blendModes (ctx_renderer this0)) this0 w4"
    by (simp add: blend_consistent_def empty_blend_def)
  from setBlendMode_consistent [OF sb this] t0(2)
  have "blend_consistent (blendModes rndr) this1 w5" by simp
  with c w' blend_consistent_cong [of w' w5 c this1] show ?thesis by simp
qed

lemma reachable_renderer: "reachable rndr c w \<Longrightarrow> ctx_renderer c = rndr"
proof (induction rule: reachable.induct)
  case (constructed opts w c w')
  then show ?case using init_fields by blast
next
  case (resized c w wd ht c' w')
  then show ?case using resize_blend_frame [of wd ht c w] by simp
next
  case (copied c w source c' w')
  then show ?case using copy_blend [of source c w] by simp
next
  case (blend_mode_set c w b col c' w')
  from setBlendMode_frame [OF blend_mode_set.hyps(2)]
  have "ctx_renderer c' = ctx_renderer (c\<lparr>blendMode := blendMode c'\<rparr>)" by simp
  with blend_mode_set.IH show ?case by simp
next
  case (blend_mode_thrown c w b col e c' w')
  then show ?case using setBlendMode_thrown by blast
next
  case (auto_clear_set c w x y z)
  then show ?case by (simp add: setAutoClear_def Let_def)
next
  case (camera_set c w cam)
  then show ?case by (simp add: setCamera_def)
next
  case (clear_color_set c w r g b a c' w')
  then show ?case using setClearColor_blend_frame [of r g b a c w] by simp
next
  case (scissor_box_set c w x y wd ht c' w')
  then show ?case using setScissorBox_blend_frame [of x y wd ht c w] by simp
next
  case (scissor_enable_set c w en)
  then show ?case by (simp add: setScissorEnable_def)
qed

lemma reachable_consistent: "reachable rndr c w \<Longrightarrow> blend_consistent (blendModes rndr) c w"
proof (induction rule: reachable.induct)
  case (constructed opts w c w')
  then show ?case by (rule init_consistent)
next
  case (resized c w wd ht c' w')
  then show ?case
    using resize_blend_frame [of wd ht c w] blend_consistent_cong [of w' w c' c] by simp
next
  case (copied c w source c' w')
  then show ?case using copy_consistent [of "blendModes rndr" source w c] by simp
next
  case (blend_mode_set c w b col c' w')
  then show ?case using setBlendMode_consistent reachable_renderer by metis
next
  case (blend_mode_thrown c w b col e c' w')
  then show ?case using setBlendMode_thrown by blast
next
  case (auto_clear_set c w x y z)
  then show ?case
    using blend_consistent_cong [of w w "setAutoClear x y z c" c]
    by (simp add: setAutoClear_def Let_def)
next
  case (camera_set c w cam)
  then show ?case
    using blend_consistent_cong [of w w "setCamera cam c" c] by (simp add: setCamera_def)
next
  case (clear_color_set c w r g b a c' w')
  then show ?case
    using setClearColor_blend_frame [of r g b a c w] blend_consistent_cong [of w' w c' c] by simp
next
  case (scissor_box_set c w x y wd ht c' w')
  then show ?case
    using setScissorBox_blend_frame [of x y wd ht c w] blend_consistent_cong [of w' w c' c]
    by simp
next
  case (scissor_enable_set c w en)
  then show ?case
    using blend_consistent_cong [of w w "setScissorEnable en c" c]
    by (simp add: setScissorEnable_def)
qed


lemma init_blends_frame:
  assumes "DrawingContext_init rndr opts w = Inr (c, w')"
  shows "\<forall>a. a \<noteq> next_addr w \<longrightarrow> blends w' a = blends w a"
proof -
  let ?b = "case opt_blendMode opts of None \<Rightarrow> 0 | Some b \<Rightarrow> b"
  obtain this0 w4 this1 w5 where
    sb: "setBlendMode ?b None this0 w4 = Inr (this1, w5)"
    and t0: "st_blend this0 = next_addr w" "blendMode this0 = - 1"
    and w4: "\<forall>a. a \<noteq> next_addr w \<longrightarrow> blends w4 a = blends w a"
    and w': "blends w' = blends w5"
    using assms
    by (auto simp: DrawingContext_init_def Let_def split_def alloc_arr_def alloc_blend_def
        setCamera_def setAutoClear_def
        split: sum.splits autoClear_option.splits bool.splits option.splits if_splits)
  have "\<forall>a. a \<noteq> st_blend this0 \<longrightarrow> blends w5 a = blends w4 a"
  proof (cases "?b = blendMode this0")
    case True
    with sb show ?thesis by (simp add: setBlendMode_def)
  next
    case False
    with sb obtain e where e: "table_entry (blendModes (ctx_renderer this0)) ?b = Some e"
      by (auto simp: setBlendMode_def Let_def split: option.splits)
    from setBlendMode_changed [OF False e, of None w4] sb show ?thesis by auto
  qed
  with t0 w4 w' show ?thesis by simp
qed

text \<open>
  Every context that the constructor returns is among the reachable states; where it is
  constructed with \<^verbatim>\<open>copyFrom\<close>, the source is a consistent context of the world the
  constructor starts in, and that world has the table's entries and the source's blend
  object below its next free address.
\<close>

lemma constructor_reachable:
  assumes "DrawingContext_new rndr opts w = Inr (c, w')"
    and "\<forall>s. opt_copyFrom opts = Some s \<longrightarrow>
           blend_consistent (blendModes rndr) s w \<and> st_blend s < next_addr w \<and>
           (\<forall>a \<in> set (blendModes rndr). a < next_addr w)"
  shows "reachable rndr c w'"
proof -
  from assms(1) obtain c0 w0 where i: "DrawingContext_init rndr opts w = Inr (c0, w0)"
    by (auto simp: DrawingContext_new_def split: sum.splits)
  have r0: "reachable rndr c0 w0" using i by (rule reachable.constructed)
  show ?thesis
  proof (cases "opt_copyFrom opts")
    case None
    with assms(1) i have "resize (r_width rndr) (r_height rndr) c0 w0 = (c, w')"
      by (simp add: DrawingContext_new_def)
    with r0 show ?thesis by (rule reachable.resized)
  next
    case (Some s)
    with assms(1) i have cp: "copy s c0 w0 = (c, w')"
      by (simp add: DrawingContext_new_def)
    from assms(2) Some have s: "blend_consistent (blendModes rndr) s w"
      "st_blend s < next_addr w" "\<forall>a \<in> set (blendModes rndr). a < next_addr w"
      by simp_all
    have same: "blends w0 a = blends w a" if "a < next_addr w" for a
      using init_blends_frame [OF i] that by simp
    have "blend_consistent (blendModes rndr) s w0"
    proof (cases "table_entry (blendModes rndr) (blendMode s)")
      case None
      with s(1,2) same show ?thesis by (simp add: blend_consistent_def)
    next
      case (Some e)
      then have "e \<in> set (blendModes rndr)"
        by (auto simp: table_entry_def split: if_splits)
      with s(3) have "e < next_addr w" by simp
      with Some s(1,2) same show ?thesis by (simp add: blend_consistent_def)
    qed
    with r0 show ?thesis using cp by (rule reachable.copied)
  qed
qed

text \<open>
  Claim C3. After any sequence of operations on a context (the constructor,
  \<^verbatim>\<open>setBlendMode\<close> returning or throwing, \<^verbatim>\<open>copy\<close> from a consistent source, \<^verbatim>\<open>resize\<close>
  and the other setters), \<^verbatim>\<open>enable\<close>, \<^verbatim>\<open>equation\<close> and \<^verbatim>\<open>func\<close> of \<^verbatim>\<open>state.blend\<close>
  are those of the entry of the renderer's table at the index \<^verbatim>\<open>blendMode\<close> (all three
  undefined while \<^verbatim>\<open>blendMode\<close> is an index without an entry, as the initial \<open>- 1\<close>). And
  \<^verbatim>\<open>copy\<close> from any source leaves the context with the source's \<^verbatim>\<open>blendMode\<close> and with
  the source's \<^verbatim>\<open>enable\<close>, \<^verbatim>\<open>equation\<close> and \<^verbatim>\<open>func\<close> in its \<^verbatim>\<open>state.blend\<close>.
\<close>

theorem blend_state_consistent:
  "(reachable rndr c w \<longrightarrow> blend_consistent (blendModes rndr) c w) \<and>
   blendMode (fst (copy source this w0)) = blendMode source \<and>
   enable (blends (snd (copy source this w0)) (st_blend (fst (copy source this w0)))) =
     enable (blends w0 (st_blend source)) \<and>
   equation (blends (snd (copy source this w0)) (st_blend (fst (copy source this w0)))) =
     equation (blends w0 (st_blend source)) \<and>
   func (blends (snd (copy source this w0)) (st_blend (fst (copy source this w0)))) =
     func (blends w0 (st_blend source))"
proof -
  have "blends (snd (copy source this w0)) (st_blend (fst (copy source this w0))) =
        \<lparr>color = fst (slice_color (color (blends w0 (st_blend source))) w0),
         enable = enable (blends w0 (st_blend source)),
         equation = equation (blends w0 (st_blend source)),
         func = func (blends w0 (st_blend source))\<rparr>"
    using copy_blend [of source this w0] by (metis fun_upd_same)
  then show ?thesis
    using reachable_consistent [of rndr c w] copy_blend [of source this w0] by simp
qed

lemma example_reachable: "reachable example_renderer example_context example_world1"
proof (rule constructor_reachable)
  show "DrawingContext_new example_renderer default_options example_world =
          Inr (example_context, example_world1)"
    by (rule example_constructed)
  show "\<forall>s. opt_copyFrom default_options = Some s \<longrightarrow>
          blend_consistent (blendModes example_renderer) s example_world \<and>
          st_blend s < next_addr example_world \<and>
          (\<forall>a \<in> set (blendModes example_renderer). a < next_addr example_world)"
    by (simp add: default_options_def)
qed

text \<open>
  The theorem on the example context: it is reachable, its blend mode is 0 and its blend
  state holds the fields of the entry at address 0; and after \<^verbatim>\<open>setBlendMode(1)\<close> it is
  reachable, its blend mode is 1 and its blend state holds the \<^verbatim>\<open>func\<close> of entry 1.
\<close>

theorem blend_state_consistent_witness:
  "reachable example_renderer example_context example_world1 \<and>
   blend_consistent (blendModes example_renderer) example_context example_world1 \<and>
   blendMode example_context = 0 \<and>
   blends example_world1 (st_blend example_context) =
     \<lparr>color = None, enable = Bool True, equation = Num (Fin 32774), func = ArrRef 2\<rparr> \<and>
   blends example_world1 0 =
     \<lparr>color = None, enable = Bool True, equation = Num (Fin 32774), func = ArrRef 2\<rparr> \<and>
   (\<exists>w'. setBlendMode 1 None example_context example_world1 =
            Inr (example_context\<lparr>blendMode := 1\<rparr>, w') \<and>
         reachable example_renderer (example_context\<lparr>blendMode := 1\<rparr>) w' \<and>
         blend_consistent (blendModes example_renderer) (example_context\<lparr>blendMode := 1\<rparr>) w' \<and>
         func (blends w' 4) = ArrRef 3 \<and> func (blends w' 1) = ArrRef 3)"
proof -
  have h1: "(1::int) \<noteq> blendMode example_context"
    by (simp add: example_context_def)
  have h2: "table_entry (blendModes (ctx_renderer example_context)) 1 = Some 1"
    by (simp add: example_context_def example_renderer_def table_entry_def)
  from setBlendMode_changed [OF h1 h2, of None example_world1]
  obtain w' where s: "setBlendMode 1 None example_context example_world1 =
            Inr (example_context\<lparr>blendMode := 1\<rparr>, w')"
    and b: "blends w' (st_blend example_context) =
            \<lparr>color = None, enable = enable (blends example_world1 1),
             equation = equation (blends example_world1 1),
             func = func (blends example_world1 1)\<rparr>"
    and o: "\<forall>a. a \<noteq> st_blend example_context \<longrightarrow> blends w' a = blends example_world1 a"
    by blast
  have r1: "reachable example_renderer (example_context\<lparr>blendMode := 1\<rparr>) w'"
    using example_reachable s by (rule reachable.blend_mode_set)
  have f: "func (blends w' 4) = ArrRef 3" "func (blends w' 1) = ArrRef 3"
    using b o by (simp_all add: example_context_def example_world1_def)
  have c0: "blend_consistent (blendModes example_renderer) example_context example_world1"
    using example_reachable
      blend_state_consistent [of example_renderer example_context example_world1]
    by simp
  have c1: "blend_consistent (blendModes example_renderer) (example_context\<lparr>blendMode := 1\<rparr>) w'"
    using r1 blend_state_consistent [of example_renderer "example_context\<lparr>blendMode := 1\<rparr>" w']
    by simp
  have e: "blendMode example_context = 0"
    "blends example_world1 (st_blend example_context) =
       \<lparr>color = None, enable = Bool True, equation = Num (Fin 32774), func = ArrRef 2\<rparr>"
    "blends example_world1 0 =
       \<lparr>color = None, enable = Bool True, equation = Num (Fin 32774), func = ArrRef 2\<rparr>"
    by (simp_all add: example_context_def example_world1_def)
  show ?thesis using example_reachable c0 c1 e s r1 f by blast
qed

section \<open>getDefault\<close>

lemma extends_refl: "extends w w"
  by (simp add: extends_def)

lemma extends_trans: "extends w w1 \<Longrightarrow> extends w1 w2 \<Longrightarrow> extends w w2"
  by (auto simp: extends_def)

lemma alloc_arr_extends:
  "extends w (snd (alloc_arr xs w)) \<and> fst (alloc_arr xs w) = next_addr w \<and>
   next_addr (snd (alloc_arr xs w)) = Suc (next_addr w) \<and>
   arrs (snd (alloc_arr xs w)) (next_addr w) = xs"
  by (simp add: alloc_arr_def extends_def)

lemma read_value_extends:
  assumes "extends w w1" and "\<forall>a \<in> value_arrays v. a < next_addr w"
  shows "read_value w1 v = read_value w v"
  using assms by (cases v) (simp_all add: read_value_def value_arrays_def extends_def)

lemma slice_color_spec:
  assumes "slice_color c w = (c', w1)"
  shows "extends w w1 \<and> map_option (arrs w1) c' = map_option (arrs w) c \<and>
         (\<forall>a \<in> set_option c'. next_addr w \<le> a \<and> a < next_addr w1)"
  using assms
  by (cases c) (auto simp: slice_color_def alloc_arr_def extends_def Let_def)

lemma DeepCopy_value_spec:
  assumes "DeepCopy_value v w = (v', w1)"
  shows "extends w w1 \<and> read_value w1 v' = read_value w v \<and>
         (\<forall>a \<in> value_arrays v'. next_addr w \<le> a \<and> a < next_addr w1)"
  using assms
  by (cases v)
    (auto simp: DeepCopy_value_def alloc_arr_def extends_def Let_def read_value_def
      value_arrays_def)

lemma DeepCopy_spec:
  assumes d: "DeepCopy (Some e) w = (out, w')"
    and arrays: "\<forall>a \<in> blend_arrays (blends w e). a < next_addr w"
  shows "\<exists>b. out = Some b \<and> next_addr w \<le> b \<and> b < next_addr w' \<and>
           next_addr w \<le> next_addr w' \<and>
           blends w' = (blends w)(b := blends w' b) \<and>
           calls w' = calls w \<and> next_handle w' = next_handle w \<and>
           (\<forall>a. a < next_addr w \<longrightarrow> arrs w' a = arrs w a) \<and>
           (map_option (arrs w') (color (blends w' b)), read_value w' (enable (blends w' b)),
            read_value w' (equation (blends w' b)), read_value w' (func (blends w' b))) =
             read_blend w e \<and>
           (\<forall>a \<in> blend_arrays (blends w' b). next_addr w \<le> a \<and> a < next_addr w')"
proof -
  obtain col w1 where s1: "slice_color (color (blends w e)) w = (col, w1)"
    by (cases "slice_color (color (blends w e)) w")
  obtain en w2 where s2: "DeepCopy_value (enable (blends w1 e)) w1 = (en, w2)"
    by (cases "DeepCopy_value (enable (blends w1 e)) w1")
  obtain eq w3 where s3: "DeepCopy_value (equation (blends w2 e)) w2 = (eq, w3)"
    by (cases "DeepCopy_value (equation (blends w2 e)) w2")
  obtain fn w4 where s4: "DeepCopy_value (func (blends w3 e)) w3 = (fn, w4)"
    by (cases "DeepCopy_value (func (blends w3 e)) w3")
  let ?obj = "\<lparr>color = col, enable = en, equation = eq, func = fn\<rparr>"
  from d s1 s2 s3 s4 have out: "out = Some (next_addr w4)"
    and w': "w' = w4\<lparr>blends := (blends w4)(next_addr w4 := ?obj), next_addr := Suc (next_addr w4)\<rparr>"
    by (simp_all add: DeepCopy_def Let_def alloc_blend_def)
  note p1 = slice_color_spec [OF s1]
  note p2 = DeepCopy_value_spec [OF s2]
  note p3 = DeepCopy_value_spec [OF s3]
  note p4 = DeepCopy_value_spec [OF s4]
  from p1 have e01: "extends w w1" by simp
  from p2 have e12: "extends w1 w2" by simp
  from p3 have e23: "extends w2 w3" by simp
  from p4 have e34: "extends w3 w4" by simp
  have e02: "extends w w2" using e01 e12 by (rule extends_trans)
  have e03: "extends w w3" using e02 e23 by (rule extends_trans)
  have e04: "extends w w4" using e03 e34 by (rule extends_trans)
  have e14: "extends w1 w4" using extends_trans [OF e12] extends_trans [OF e23 e34] by blast
  have e24: "extends w2 w4" using e23 e34 by (rule extends_trans)
  have b1: "blends w1 e = blends w e" using e01 by (simp add: extends_def)
  have b2: "blends w2 e = blends w e" using e02 by (simp add: extends_def)
  have b3: "blends w3 e = blends w e" using e03 by (simp add: extends_def)
  have n: "next_addr w \<le> next_addr w1" "next_addr w1 \<le> next_addr w2"
    "next_addr w2 \<le> next_addr w3" "next_addr w3 \<le> next_addr w4"
    using e01 e12 e23 e34 by (simp_all add: extends_def)
  have src: "\<forall>a \<in> value_arrays (enable (blends w e)). a < next_addr w"
    "\<forall>a \<in> value_arrays (equation (blends w e)). a < next_addr w"
    "\<forall>a \<in> value_arrays (func (blends w e)). a < next_addr w"
    using arrays by (simp_all add: blend_arrays_def)
  \<comment> \<open>the color\<close>
  have col_fresh: "\<forall>a \<in> set_option col. next_addr w \<le> a \<and> a < next_addr w1"
    using p1 by simp
  have "map_option (arrs w4) col = map_option (arrs w1) col"
    using col_fresh e14 by (cases col) (simp_all add: extends_def)
  with p1 have c_col: "map_option (arrs w4) col = map_option (arrs w) (color (blends w e))"
    by simp
  \<comment> \<open>enable\<close>
  have en_fresh: "\<forall>a \<in> value_arrays en. next_addr w1 \<le> a \<and> a < next_addr w2"
    using p2 by simp
  have "read_value w4 en = read_value w2 en"
    using e24 en_fresh by (intro read_value_extends) auto
  also have "\<dots> = read_value w1 (enable (blends w e))" using p2 b1 by simp
  also have "\<dots> = read_value w (enable (blends w e))"
    using e01 src(1) by (rule read_value_extends)
  finally have c_en: "read_value w4 en = read_value w (enable (blends w e))" .
  \<comment> \<open>equation\<close>
  have eq_fresh: "\<forall>a \<in> value_arrays eq. next_addr w2 \<le> a \<and> a < next_addr w3"
    using p3 by simp
  have "read_value w4 eq = read_value w3 eq"
    using e34 eq_fresh by (intro read_value_extends) auto
  also have "\<dots> = read_value w2 (equation (blends w e))" using p3 b2 by simp
  also have "\<dots> = read_value w (equation (blends w e))"
    using e02 src(2) by (rule read_value_extends)
  finally have c_eq: "read_value w4 eq = read_value w (equation (blends w e))" .
  \<comment> \<open>func\<close>
  have fn_fresh: "\<forall>a \<in> value_arrays fn. next_addr w3 \<le> a \<and> a < next_addr w4"
    using p4 by simp
  have "read_value w4 fn = read_value w3 (func (blends w e))" using p4 b3 by simp
  also have "\<dots> = read_value w (func (blends w e))"
    using e03 src(3) by (rule read_value_extends)
  finally have c_fn: "read_value w4 fn = read_value w (func (blends w e))" .
  have obj: "blends w' (next_addr w4) = ?obj" using w' by simp
  have arrs': "arrs w' = arrs w4" using w' by simp
  have rv: "read_value w' v = read_value w4 v" for v
    using arrs' by (cases v) (simp_all add: read_value_def)
  have fresh: "\<forall>a \<in> blend_arrays ?obj. next_addr w \<le> a \<and> a < next_addr w'"
  proof
    fix a assume "a \<in> blend_arrays ?obj"
    then have "a \<in> set_option col \<or> a \<in> value_arrays en \<or> a \<in> value_arrays eq \<or>
               a \<in> value_arrays fn"
      by (simp add: blend_arrays_def)
    with col_fresh en_fresh eq_fresh fn_fresh n w'
    show "next_addr w \<le> a \<and> a < next_addr w'" by fastforce
  qed
  have "blends w' = (blends w)(next_addr w4 := blends w' (next_addr w4))"
    using w' e04 by (simp add: extends_def)
  moreover have "\<forall>a. a < next_addr w \<longrightarrow> arrs w' a = arrs w a"
    using arrs' e04 by (simp add: extends_def)
  moreover have "calls w' = calls w" "next_handle w' = next_handle w"
    using w' e04 by (simp_all add: extends_def)
  moreover have "next_addr w \<le> next_addr w4" "next_addr w4 < next_addr w'"
    using n w' by simp_all
  ultimately show ?thesis
    using out obj c_col c_en c_eq c_fn fresh arrs' rv
    by (simp add: read_blend_def)
qed


lemma DeepCopy_frame:
  assumes "DeepCopy x w = (out, w')"
  shows "next_addr w \<le> next_addr w' \<and> calls w' = calls w \<and> next_handle w' = next_handle w \<and>
         (\<forall>a. a < next_addr w \<longrightarrow> arrs w' a = arrs w a \<and> blends w' a = blends w a)"
proof (cases x)
  case None
  with assms show ?thesis by (simp add: DeepCopy_def)
next
  case (Some e)
  obtain col w1 where s1: "slice_color (color (blends w e)) w = (col, w1)"
    by (cases "slice_color (color (blends w e)) w")
  obtain en w2 where s2: "DeepCopy_value (enable (blends w1 e)) w1 = (en, w2)"
    by (cases "DeepCopy_value (enable (blends w1 e)) w1")
  obtain eq w3 where s3: "DeepCopy_value (equation (blends w2 e)) w2 = (eq, w3)"
    by (cases "DeepCopy_value (equation (blends w2 e)) w2")
  obtain fn w4 where s4: "DeepCopy_value (func (blends w3 e)) w3 = (fn, w4)"
    by (cases "DeepCopy_value (func (blends w3 e)) w3")
  from assms Some s1 s2 s3 s4
  have w': "w' = w4\<lparr>blends := (blends w4)
                (next_addr w4 := \<lparr>color = col, enable = en, equation = eq, func = fn\<rparr>),
              next_addr := Suc (next_addr w4)\<rparr>"
    by (simp add: DeepCopy_def Let_def alloc_blend_def)
  have "extends w w1" using slice_color_spec [OF s1] by simp
  moreover have "extends w1 w2" using DeepCopy_value_spec [OF s2] by simp
  moreover have "extends w2 w3" using DeepCopy_value_spec [OF s3] by simp
  moreover have "extends w3 w4" using DeepCopy_value_spec [OF s4] by simp
  ultimately have "extends w w4" by (blast intro: extends_trans)
  with w' show ?thesis by (simp add: extends_def)
qed

lemma getDefault_steps:
  "gp_blend (fst (getDefault NORMAL stencil rndr w)) =
     fst (DeepCopy (table_entry (blendModes rndr) NORMAL) w) \<and>
   extends (snd (DeepCopy (table_entry (blendModes rndr) NORMAL) w))
     (snd (getDefault NORMAL stencil rndr w))"
  by (simp add: getDefault_def Let_def split_def alloc_arr_def extends_def)

lemma getDefault_parts:
  "\<exists>w1. DeepCopy (table_entry (blendModes rndr) NORMAL) w =
           (gp_blend (fst (getDefault NORMAL stencil rndr w)), w1) \<and>
        extends w1 (snd (getDefault NORMAL stencil rndr w))"
  using getDefault_steps [of NORMAL stencil rndr w]
  by (metis prod.collapse)

lemma read_blend_agree:
  assumes "blends w2 a = blends w1 a"
    and "\<forall>x \<in> blend_arrays (blends w1 a). arrs w2 x = arrs w1 x"
  shows "read_blend w2 a = read_blend w1 a"
proof -
  have v: "read_value w2 v = read_value w1 v" if "\<forall>x \<in> value_arrays v. arrs w2 x = arrs w1 x" for v
    using that by (cases v) (simp_all add: read_value_def value_arrays_def)
  have "map_option (arrs w2) (color (blends w1 a)) = map_option (arrs w1) (color (blends w1 a))"
    using assms(2) by (cases "color (blends w1 a)") (simp_all add: blend_arrays_def)
  moreover have "read_value w2 (enable (blends w1 a)) = read_value w1 (enable (blends w1 a))"
    using assms(2) by (intro v) (simp add: blend_arrays_def)
  moreover have "read_value w2 (equation (blends w1 a)) = read_value w1 (equation (blends w1 a))"
    using assms(2) by (intro v) (simp add: blend_arrays_def)
  moreover have "read_value w2 (func (blends w1 a)) = read_value w1 (func (blends w1 a))"
    using assms(2) by (intro v) (simp add: blend_arrays_def)
  ultimately show ?thesis using assms(1) by (simp add: read_blend_def)
qed

lemma getDefault_frame:
  "calls (snd (getDefault NORMAL stencil rndr w)) = calls w \<and>
   next_handle (snd (getDefault NORMAL stencil rndr w)) = next_handle w \<and>
   (\<forall>a. a < next_addr w \<longrightarrow>
      arrs (snd (getDefault NORMAL stencil rndr w)) a = arrs w a \<and>
      blends (snd (getDefault NORMAL stencil rndr w)) a = blends w a)"
proof -
  from getDefault_parts [of rndr NORMAL w stencil]
  obtain w1 where d: "DeepCopy (table_entry (blendModes rndr) NORMAL) w =
           (gp_blend (fst (getDefault NORMAL stencil rndr w)), w1)"
    and e: "extends w1 (snd (getDefault NORMAL stencil rndr w))" by blast
  from DeepCopy_frame [OF d] e show ?thesis by (simp add: extends_def)
qed

lemma getDefault_no_entry:
  assumes "table_entry (blendModes rndr) NORMAL = None"
  shows "gp_blend (fst (getDefault NORMAL stencil rndr w)) = None"
  using assms by (simp add: getDefault_def DeepCopy_def Let_def split_def)

lemma getDefault_copy:
  assumes t: "table_entry (blendModes rndr) NORMAL = Some e"
    and e: "e < next_addr w"
    and arrays: "\<forall>a \<in> blend_arrays (blends w e). a < next_addr w"
  shows "\<exists>b. gp_blend (fst (getDefault NORMAL stencil rndr w)) = Some b \<and> b \<noteq> e \<and>
           next_addr w \<le> b \<and>
           read_blend (snd (getDefault NORMAL stencil rndr w)) b = read_blend w e \<and>
           read_blend (snd (getDefault NORMAL stencil rndr w)) e = read_blend w e \<and>
           (\<forall>w2. written_through b (snd (getDefault NORMAL stencil rndr w)) w2 \<longrightarrow>
              read_blend w2 e = read_blend (snd (getDefault NORMAL stencil rndr w)) e) \<and>
           (\<forall>w2. written_through e (snd (getDefault NORMAL stencil rndr w)) w2 \<longrightarrow>
              read_blend w2 b = read_blend (snd (getDefault NORMAL stencil rndr w)) b)"
proof -
  let ?w = "snd (getDefault NORMAL stencil rndr w)"
  from getDefault_parts [of rndr NORMAL w stencil] t
  obtain w1 where d: "DeepCopy (Some e) w = (gp_blend (fst (getDefault NORMAL stencil rndr w)), w1)"
    and x: "extends w1 ?w" by auto
  from DeepCopy_spec [OF d arrays]
  obtain b where b: "gp_blend (fst (getDefault NORMAL stencil rndr w)) = Some b"
    and bn: "next_addr w \<le> b" "b < next_addr w1"
    and bl: "blends w1 = (blends w)(b := blends w1 b)"
    and ar: "\<forall>a. a < next_addr w \<longrightarrow> arrs w1 a = arrs w a"
    and rd: "(map_option (arrs w1) (color (blends w1 b)), read_value w1 (enable (blends w1 b)),
            read_value w1 (equation (blends w1 b)), read_value w1 (func (blends w1 b))) =
             read_blend w e"
    and fr: "\<forall>a \<in> blend_arrays (blends w1 b). next_addr w \<le> a \<and> a < next_addr w1"
    by blast
  have ne: "b \<noteq> e" using bn e by simp
  have bw: "blends ?w = blends w1" using x by (simp add: extends_def)
  have aw: "arrs ?w a = arrs w1 a" if "a < next_addr w1" for a
    using x that by (simp add: extends_def)
  have be: "blends ?w e = blends w e" using bw bl ne by (metis fun_upd_other)
  \<comment> \<open>the copy reads as the entry did\<close>
  have "read_blend ?w b = read_blend w1 b"
    using bw fr aw by (intro read_blend_agree) auto
  with rd have r1: "read_blend ?w b = read_blend w e" by (simp add: read_blend_def)
  \<comment> \<open>the entry reads as before\<close>
  have r2: "read_blend ?w e = read_blend w e"
    using be arrays ar aw bn by (intro read_blend_agree) (auto simp: less_le_trans)
  \<comment> \<open>the arrays of the copy are new, those of the entry are old\<close>
  have old: "\<forall>a \<in> blend_arrays (blends ?w e). a < next_addr w" using be arrays by simp
  have new: "\<forall>a \<in> blend_arrays (blends ?w b). next_addr w \<le> a" using bw fr by simp
  have i1: "read_blend w2 e = read_blend ?w e" if wt: "written_through b ?w w2" for w2
  proof (rule read_blend_agree)
    show "blends w2 e = blends ?w e" using wt ne by (simp add: written_through_def)
    show "\<forall>x \<in> blend_arrays (blends ?w e). arrs w2 x = arrs ?w x"
    proof
      fix x assume "x \<in> blend_arrays (blends ?w e)"
      with old new have "x \<notin> blend_arrays (blends ?w b)" by fastforce
      with wt show "arrs w2 x = arrs ?w x" by (simp add: written_through_def)
    qed
  qed
  have i2: "read_blend w2 b = read_blend ?w b" if wt: "written_through e ?w w2" for w2
  proof (rule read_blend_agree)
    show "blends w2 b = blends ?w b" using wt ne by (simp add: written_through_def)
    show "\<forall>x \<in> blend_arrays (blends ?w b). arrs w2 x = arrs ?w x"
    proof
      fix x assume "x \<in> blend_arrays (blends ?w b)"
      with old new have "x \<notin> blend_arrays (blends ?w e)" by fastforce
      with wt show "arrs w2 x = arrs ?w x" by (simp add: written_through_def)
    qed
  qed
  show ?thesis using b ne bn(1) r1 r2 i1 i2 by blast
qed

text \<open>
  Claim C9. \<^verbatim>\<open>getDefault\<close> returns a descriptor for every renderer and world (it has no
  error case; where the table has no NORMAL entry, \<^verbatim>\<open>blend\<close> is undefined), and it has no
  side effect: it makes no call on the renderer and leaves every array and blend object
  of the world as it was, allocating new ones only. Where the table has a NORMAL entry
  \<open>e\<close> (an object of the world, with its arrays), \<^verbatim>\<open>blend\<close> of the descriptor is a new
  object \<open>b\<close>, different from \<open>e\<close>, that reads as the entry does; and it is a deep copy:
  after any writes through \<open>b\<close> (to its fields or to the elements of its arrays) the
  entry reads as before, and after any writes through the entry \<open>b\<close> reads as before.
\<close>

theorem getDefault_blend_deep_copy:
  "(calls (snd (getDefault NORMAL stencil rndr w)) = calls w \<and>
    next_handle (snd (getDefault NORMAL stencil rndr w)) = next_handle w \<and>
    (\<forall>a. a < next_addr w \<longrightarrow>
       arrs (snd (getDefault NORMAL stencil rndr w)) a = arrs w a \<and>
       blends (snd (getDefault NORMAL stencil rndr w)) a = blends w a)) \<and>
   (table_entry (blendModes rndr) NORMAL = None \<longrightarrow>
      gp_blend (fst (getDefault NORMAL stencil rndr w)) = None) \<and>
   (table_entry (blendModes rndr) NORMAL = Some e \<longrightarrow> e < next_addr w \<longrightarrow>
    (\<forall>a \<in> blend_arrays (blends w e). a < next_addr w) \<longrightarrow>
      (\<exists>b. gp_blend (fst (getDefault NORMAL stencil rndr w)) = Some b \<and> b \<noteq> e \<and>
           next_addr w \<le> b \<and>
           read_blend (snd (getDefault NORMAL stencil rndr w)) b = read_blend w e \<and>
           read_blend (snd (getDefault NORMAL stencil rndr w)) e = read_blend w e \<and>
           (\<forall>w2. written_through b (snd (getDefault NORMAL stencil rndr w)) w2 \<longrightarrow>
              read_blend w2 e = read_blend (snd (getDefault NORMAL stencil rndr w)) e) \<and>
           (\<forall>w2. written_through e (snd (getDefault NORMAL stencil rndr w)) w2 \<longrightarrow>
              read_blend w2 b = read_blend (snd (getDefault NORMAL stencil rndr w)) b)))"
  using getDefault_frame [of NORMAL stencil rndr w]
    getDefault_no_entry [of rndr NORMAL stencil w]
    getDefault_copy [of rndr NORMAL e w stencil]
  by blast


lemma example_default_blend:
  "gp_blend (fst example_default) = Some 5 \<and>
   blends (snd example_default) 5 =
     \<lparr>color = None, enable = Bool True, equation = Num (Fin 32774), func = ArrRef 4\<rparr> \<and>
   blends (snd example_default) 0 =
     \<lparr>color = None, enable = Bool True, equation = Num (Fin 32774), func = ArrRef 2\<rparr> \<and>
   arrs (snd example_default) 4 = [Fin 1, Fin 771] \<and>
   arrs (snd example_default) 2 = [Fin 1, Fin 771]"
  by (simp add: example_default_def getDefault_def DeepCopy_def DeepCopy_value_def
      slice_color_def alloc_arr_def alloc_blend_def table_entry_def Let_def
      example_renderer_def example_world_def)

text \<open>
  The theorem in the example world, whose NORMAL entry is at address 0 with its \<^verbatim>\<open>func\<close>
  array at address 2: the descriptor's blend object is at address 5, its \<^verbatim>\<open>func\<close> array at
  address 4, and overwriting that array leaves the entry as it was.
\<close>

theorem getDefault_blend_deep_copy_witness:
  "table_entry (blendModes example_renderer) 0 = Some 0 \<and>
   0 < next_addr example_world \<and>
   blend_arrays (blends example_world 0) = {2} \<and>
   gp_blend (fst example_default) = Some 5 \<and>
   func (blends (snd example_default) 5) = ArrRef 4 \<and>
   func (blends (snd example_default) 0) = ArrRef 2 \<and>
   read_blend (snd example_default) 5 =
     (None, Inl (Bool True), Inl (Num (Fin 32774)), Inr [Fin 1, Fin 771]) \<and>
   read_blend example_world 0 =
     (None, Inl (Bool True), Inl (Num (Fin 32774)), Inr [Fin 1, Fin 771]) \<and>
   written_through 5 (snd example_default)
     ((snd example_default)\<lparr>arrs := (arrs (snd example_default))(4 := [Fin 0, Fin 0])\<rparr>) \<and>
   read_blend ((snd example_default)\<lparr>arrs := (arrs (snd example_default))(4 := [Fin 0, Fin 0])\<rparr>) 0 =
     (None, Inl (Bool True), Inl (Num (Fin 32774)), Inr [Fin 1, Fin 771])"
proof -
  have h1: "table_entry (blendModes example_renderer) 0 = Some 0"
    by (simp add: example_renderer_def table_entry_def)
  have h2: "0 < next_addr example_world" by (simp add: example_world_def)
  have h3: "blend_arrays (blends example_world 0) = {2}"
    by (simp add: example_world_def blend_arrays_def value_arrays_def)
  have h3': "\<forall>a \<in> blend_arrays (blends example_world 0). a < next_addr example_world"
    using h3 by (simp add: example_world_def)
  have r0: "read_blend example_world 0 =
     (None, Inl (Bool True), Inl (Num (Fin 32774)), Inr [Fin 1, Fin 771])"
    by (simp add: read_blend_def read_value_def example_world_def)
  have wt: "written_through 5 (snd example_default)
     ((snd example_default)\<lparr>arrs := (arrs (snd example_default))(4 := [Fin 0, Fin 0])\<rparr>)"
    using example_default_blend
    by (simp add: written_through_def blend_arrays_def value_arrays_def)
  from getDefault_blend_deep_copy [of 0 "()" example_renderer example_world 0] h1 h2 h3'
  obtain b where b: "gp_blend (fst example_default) = Some b"
    and rb: "read_blend (snd example_default) b = read_blend example_world 0"
    and re: "read_blend (snd example_default) 0 = read_blend example_world 0"
    and ind: "\<forall>w2. written_through b (snd example_default) w2 \<longrightarrow>
              read_blend w2 0 = read_blend (snd example_default) 0"
    unfolding example_default_def by blast
  from b example_default_blend have b5: "b = 5" by simp
  from ind b5 wt re r0
  have "read_blend ((snd example_default)\<lparr>arrs := (arrs (snd example_default))(4 := [Fin 0, Fin 0])\<rparr>) 0 =
     (None, Inl (Bool True), Inl (Num (Fin 32774)), Inr [Fin 1, Fin 771])"
    by simp
  with h1 h2 h3 r0 wt rb b5 example_default_blend show ?thesis by simp
qed

section \<open>getClone returns a new context\<close>

lemma example_bare_constructed:
  "DrawingContext_new example_bare_renderer (default_options\<lparr>opt_blendMode := Some (- 1)\<rparr>)
     example_world = Inr (example_bare_context, example_bare_world)"
  by (simp add: eval_defs example_defs example_bare_renderer_def example_bare_context_def
      example_bare_world_def)

lemma setAutoClear_none_eq: "setAutoClear False False False this = this\<lparr>autoClear := 0\<rparr>"
  by (simp add: setAutoClear_def)

lemma init_throws:
  assumes "table_entry (blendModes rndr) 0 = None"
  shows "isl (DrawingContext_init rndr (copyFrom_options source) w) \<and>
         fst (projl (DrawingContext_init rndr (copyFrom_options source) w)) = TypeError"
  using assms
  by (simp add: DrawingContext_init_def copyFrom_options_def setBlendMode_def Let_def split_def
      setCamera_def)

lemma getClone_throws:
  assumes "table_entry (blendModes (ctx_renderer this)) 0 = None"
  shows "isl (getClone p this w) \<and> fst (projl (getClone p this w)) = TypeError"
proof -
  from init_throws [OF assms, of this w]
  obtain f where "DrawingContext_init (ctx_renderer this) (copyFrom_options this) w = Inl f"
    and "fst f = TypeError"
    by (cases "DrawingContext_init (ctx_renderer this) (copyFrom_options this) w") auto
  then show ?thesis by (simp add: getClone_def DrawingContext_new_def)
qed

lemma init_allocates:
  assumes "DrawingContext_init rndr opts w = Inr (c, w')"
  shows "next_addr w < next_addr w' \<and> inUse c = False \<and>
         (\<forall>a. a < next_addr w \<longrightarrow> arrs w' a = arrs w a)"
proof -
  obtain this0 w4 this1 w5 where
    sb: "setBlendMode (case opt_blendMode opts of None \<Rightarrow> 0 | Some b \<Rightarrow> b) None this0 w4 = Inr (this1, w5)"
    and w4: "next_addr w < next_addr w4" "\<forall>a. a < next_addr w \<longrightarrow> arrs w4 a = arrs w a"
    and c: "inUse c = False"
    and w': "next_addr w' = next_addr w5" "arrs w' = arrs w5"
    using assms
    by (auto simp: DrawingContext_init_def Let_def split_def alloc_arr_def alloc_blend_def
        setCamera_def setAutoClear_def
        split: sum.splits autoClear_option.splits bool.splits option.splits if_splits)
  from setBlendMode_frame [OF sb] have "next_addr w5 = next_addr w4" "arrs w5 = arrs w4"
    by simp_all
  with w4 c w' show ?thesis by simp
qed

lemma resize_allocates:
  "st_blend (fst (resize wd ht this w)) = st_blend this \<and>
   st_colorClearValue (fst (resize wd ht this w)) = st_colorClearValue this \<and>
   st_scissor_box (fst (resize wd ht this w)) = next_addr w \<and>
   st_viewport (fst (resize wd ht this w)) = Suc (next_addr w) \<and>
   next_addr (snd (resize wd ht this w)) = Suc (Suc (next_addr w)) \<and>
   camera (fst (resize wd ht this w)) = camera this \<and>
   useCanvas (fst (resize wd ht this w)) = useCanvas this \<and>
   inUse (fst (resize wd ht this w)) = inUse this"
  by (simp add: resize_def Let_def split_def alloc_arr_def deleteTexture_def
      deleteFramebuffer_def createTextureFromSource_def createFramebuffer_def
      split: option.splits)

lemma resize_arrs_frame:
  "a < next_addr w \<Longrightarrow> arrs (snd (resize wd ht this w)) a = arrs w a"
  by (simp add: resize_def Let_def split_def alloc_arr_def deleteTexture_def
      deleteFramebuffer_def createTextureFromSource_def createFramebuffer_def
      split: option.splits)

lemma copy_before_resize:
  "\<exists>this2 w5.
      copy source this w =
        resize (to_number (width source)) (to_number (height source)) this2 w5 \<and>
      camera this2 = camera source \<and> useCanvas this2 = useCanvas source \<and>
      st_scissor_enable this2 = st_scissor_enable source \<and> inUse this2 = inUse this \<and>
      next_addr w \<le> st_blend this2 \<and> st_blend this2 < st_colorClearValue this2 \<and>
      st_colorClearValue this2 < next_addr w5 \<and>
      (st_colorClearValue source < next_addr w \<longrightarrow>
         arrs w5 (st_colorClearValue this2) = arrs w (st_colorClearValue source))"
  unfolding copy_def Let_def split_def
  by (rule exI, rule exI, rule conjI, rule refl)
    (simp add: alloc_arr_def alloc_blend_def slice_color_def split: option.splits)

lemma getClone_returns:
  assumes "table_entry (blendModes (ctx_renderer this)) 0 = Some e"
  shows "\<exists>c w'. getClone True this w = Inr (c, w') \<and>
           getClone False this w = Inr (c\<lparr>autoClear := 0\<rparr>, w') \<and>
           autoClear c = autoClear this \<and>
           ctx_renderer c = ctx_renderer this \<and> camera c = camera this \<and>
           blendMode c = blendMode this \<and> useCanvas c = useCanvas this \<and>
           st_scissor_enable c = st_scissor_enable this \<and> inUse c = False \<and>
           next_addr w < st_blend c \<and> st_blend c < st_colorClearValue c \<and>
           st_colorClearValue c < st_scissor_box c \<and> st_scissor_box c < st_viewport c \<and>
           st_viewport c < next_addr w' \<and>
           (st_blend this < next_addr w \<longrightarrow>
              enable (blends w' (st_blend c)) = enable (blends w (st_blend this)) \<and>
              equation (blends w' (st_blend c)) = equation (blends w (st_blend this)) \<and>
              func (blends w' (st_blend c)) = func (blends w (st_blend this))) \<and>
           (st_colorClearValue this < next_addr w \<longrightarrow>
              arrs w' (st_colorClearValue c) = arrs w (st_colorClearValue this))"
proof -
  from new_copyFrom_returns [OF assms, of this w]
  obtain c0 w0 where
    i: "DrawingContext_init (ctx_renderer this) (copyFrom_options this) w = Inr (c0, w0)"
    and n: "DrawingContext_new (ctx_renderer this) (copyFrom_options this) w =
              Inr (copy this c0 w0)"
    by blast
  let ?c = "fst (copy this c0 w0)" and ?w = "snd (copy this c0 w0)"
  have t: "getClone True this w = Inr (?c, ?w)"
    using n by (simp add: getClone_def split_def)
  have f: "getClone False this w = Inr (?c\<lparr>autoClear := 0\<rparr>, ?w)"
    using n by (simp add: getClone_def setAutoClear_none_eq split_def)
  from init_fields [OF i] have r0: "ctx_renderer c0 = ctx_renderer this" by simp
  from init_allocates [OF i]
  have a0: "next_addr w < next_addr w0" "inUse c0 = False"
    "\<forall>a. a < next_addr w \<longrightarrow> arrs w0 a = arrs w a" by simp_all
  note b0 = init_blends_frame [OF i]
  from copy_before_resize [of this c0 w0]
  obtain this2 w5 where
    cp: "copy this c0 w0 =
           resize (to_number (width this)) (to_number (height this)) this2 w5"
    and t2: "camera this2 = camera this" "useCanvas this2 = useCanvas this"
      "st_scissor_enable this2 = st_scissor_enable this" "inUse this2 = inUse c0"
    and ad: "next_addr w0 \<le> st_blend this2" "st_blend this2 < st_colorClearValue this2"
      "st_colorClearValue this2 < next_addr w5"
    and cc: "st_colorClearValue this < next_addr w0 \<longrightarrow>
         arrs w5 (st_colorClearValue this2) = arrs w0 (st_colorClearValue this)"
    by blast
  note ra = resize_allocates [of "to_number (width this)" "to_number (height this)" this2 w5]
  have fields: "camera ?c = camera this" "useCanvas ?c = useCanvas this"
    "st_scissor_enable ?c = st_scissor_enable this" "inUse ?c = False"
    using cp ra t2 a0(2)
      resize_scissor_enable [of "to_number (width this)" "to_number (height this)" this2 w5]
    by simp_all
  have addrs: "next_addr w < st_blend ?c" "st_blend ?c < st_colorClearValue ?c"
    "st_colorClearValue ?c < st_scissor_box ?c" "st_scissor_box ?c < st_viewport ?c"
    "st_viewport ?c < next_addr ?w"
    using cp ra ad a0(1) by simp_all
  note cb = copy_blend [of this c0 w0]
  have more: "blendMode ?c = blendMode this" "ctx_renderer ?c = ctx_renderer this"
    "autoClear ?c = autoClear this"
    using cb r0 copy_autoClear [of this c0 w0] by simp_all
  have obj: "blends ?w (st_blend ?c) =
        \<lparr>color = fst (slice_color (color (blends w0 (st_blend this))) w0),
         enable = enable (blends w0 (st_blend this)),
         equation = equation (blends w0 (st_blend this)),
         func = func (blends w0 (st_blend this))\<rparr>"
    using cb by (metis fun_upd_same)
  have blend: "enable (blends ?w (st_blend ?c)) = enable (blends w (st_blend this)) \<and>
      equation (blends ?w (st_blend ?c)) = equation (blends w (st_blend this)) \<and>
      func (blends ?w (st_blend ?c)) = func (blends w (st_blend this))"
    if "st_blend this < next_addr w"
  proof -
    from that b0 have "blends w0 (st_blend this) = blends w (st_blend this)" by simp
    with obj show ?thesis by simp
  qed
  have ccv: "arrs ?w (st_colorClearValue ?c) = arrs w (st_colorClearValue this)"
    if lt: "st_colorClearValue this < next_addr w"
  proof -
    have "arrs ?w (st_colorClearValue ?c) = arrs w5 (st_colorClearValue this2)"
      using cp ra ad(3)
        resize_arrs_frame [of "st_colorClearValue this2" w5 "to_number (width this)"
          "to_number (height this)" this2]
      by simp
    also have "\<dots> = arrs w0 (st_colorClearValue this)" using cc lt a0(1) by simp
    also have "\<dots> = arrs w (st_colorClearValue this)" using a0(3) lt by simp
    finally show ?thesis .
  qed
  show ?thesis using t f fields addrs more blend ccv by blast
qed

text \<open>
  Claim C6, as the code has it. For every context whose renderer's table of blend modes
  has an entry at index 0, \<^verbatim>\<open>getClone(true)\<close> returns a context \<open>c\<close> whose \<^verbatim>\<open>autoClear\<close>
  is that of the context it was called on, and \<^verbatim>\<open>getClone()\<close> or \<^verbatim>\<open>getClone(false)\<close>
  returns the same context with \<^verbatim>\<open>autoClear\<close> 0. The context is new: its blend object
  and its three arrays are at addresses that were free before the call, each its own; it
  is not in use; it has the renderer, camera, blend mode, \<^verbatim>\<open>useCanvas\<close> and scissor flag
  of the source, and, for a source whose blend object and clear color are objects of the
  world, their \<^verbatim>\<open>enable\<close>, \<^verbatim>\<open>equation\<close>, \<^verbatim>\<open>func\<close> and components. Where the table has
  no entry at index 0, \<^verbatim>\<open>getClone\<close> throws a TypeError instead, from the constructor's
  \<^verbatim>\<open>setBlendMode(0)\<close>.
\<close>

theorem getClone_autoClear:
  "(table_entry (blendModes (ctx_renderer this)) 0 = None \<longrightarrow>
      isl (getClone p this w) \<and> fst (projl (getClone p this w)) = TypeError) \<and>
   (table_entry (blendModes (ctx_renderer this)) 0 = Some e \<longrightarrow>
      (\<exists>c w'. getClone True this w = Inr (c, w') \<and>
           getClone False this w = Inr (c\<lparr>autoClear := 0\<rparr>, w') \<and>
           autoClear c = autoClear this \<and>
           ctx_renderer c = ctx_renderer this \<and> camera c = camera this \<and>
           blendMode c = blendMode this \<and> useCanvas c = useCanvas this \<and>
           st_scissor_enable c = st_scissor_enable this \<and> inUse c = False \<and>
           next_addr w < st_blend c \<and> st_blend c < st_colorClearValue c \<and>
           st_colorClearValue c < st_scissor_box c \<and> st_scissor_box c < st_viewport c \<and>
           st_viewport c < next_addr w' \<and>
           (st_blend this < next_addr w \<longrightarrow>
              enable (blends w' (st_blend c)) = enable (blends w (st_blend this)) \<and>
              equation (blends w' (st_blend c)) = equation (blends w (st_blend this)) \<and>
              func (blends w' (st_blend c)) = func (blends w (st_blend this))) \<and>
           (st_colorClearValue this < next_addr w \<longrightarrow>
              arrs w' (st_colorClearValue c) = arrs w (st_colorClearValue this))))"
  using getClone_throws [of this p w] getClone_returns [of this e w] by blast

text \<open>
  The theorem on the example context, which clears all three buffers: the clone has its
  blend object at address 14 and its clear color at address 15, both free before.
\<close>

theorem getClone_autoClear_witness:
  "table_entry (blendModes (ctx_renderer example_context)) 0 = Some 0 \<and>
   autoClear example_context = 17664 \<and>
   getClone True example_context example_world1 =
     Inr (example_copied_context, example_world2) \<and>
   getClone False example_context example_world1 =
     Inr (example_copied_context\<lparr>autoClear := 0\<rparr>, example_world2) \<and>
   autoClear example_copied_context = 17664 \<and>
   autoClear (example_copied_context\<lparr>autoClear := 0\<rparr>) = 0 \<and>
   st_blend example_context = 4 \<and> st_blend example_copied_context = 14 \<and>
   st_colorClearValue example_context = 5 \<and> st_colorClearValue example_copied_context = 15 \<and>
   next_addr example_world1 = 10 \<and>
   arrs example_world2 15 = [Fin 0, Fin 0, Fin 0, Fin 0]"
proof -
  have h: "table_entry (blendModes (ctx_renderer example_context)) 0 = Some 0"
    by (simp add: example_context_def example_renderer_def table_entry_def)
  from getClone_autoClear [of example_context False example_world1 0] h
  obtain c w' where t: "getClone True example_context example_world1 = Inr (c, w')"
    and f: "getClone False example_context example_world1 = Inr (c\<lparr>autoClear := 0\<rparr>, w')"
    and a: "autoClear c = autoClear example_context"
    and cc: "st_colorClearValue example_context < next_addr example_world1 \<longrightarrow>
              arrs w' (st_colorClearValue c) =
              arrs example_world1 (st_colorClearValue example_context)"
    by blast
  from t example_clone have e: "c = example_copied_context" "w' = example_world2" by simp_all
  have v: "autoClear example_context = 17664" "st_blend example_context = 4"
    "st_blend example_copied_context = 14" "st_colorClearValue example_context = 5"
    "st_colorClearValue example_copied_context = 15" "next_addr example_world1 = 10"
    by (simp_all add: example_context_def example_copied_context_def example_world1_def)
  from cc e v example_colorClearValue
  have "arrs example_world2 15 = [Fin 0, Fin 0, Fin 0, Fin 0]" by simp
  with h t f a e v show ?thesis by simp
qed

text \<open>
  A context on a renderer with an empty table, as the constructor returns it for
  \<^verbatim>\<open>{ blendMode: -1 }\<close>: \<^verbatim>\<open>getClone\<close> on it throws, with or without
  \<^verbatim>\<open>preserveAutoClear\<close>, and returns no context.
\<close>

theorem getClone_empty_table_counterexample:
  "DrawingContext_new example_bare_renderer (default_options\<lparr>opt_blendMode := Some (- 1)\<rparr>)
     example_world = Inr (example_bare_context, example_bare_world) \<and>
   blendModes (ctx_renderer example_bare_context) = [] \<and>
   isl (getClone False example_bare_context example_bare_world) \<and>
   fst (projl (getClone False example_bare_context example_bare_world)) = TypeError \<and>
   isl (getClone True example_bare_context example_bare_world) \<and>
   fst (projl (getClone True example_bare_context example_bare_world)) = TypeError"
proof -
  have r: "blendModes (ctx_renderer example_bare_context) = []"
    by (simp add: example_bare_context_def example_bare_renderer_def)
  then have "table_entry (blendModes (ctx_renderer example_bare_context)) 0 = None"
    by (simp add: table_entry_def)
  from getClone_throws [OF this] r example_bare_constructed show ?thesis by simp
qed

end
